theory Spec2Isabelle
  imports Main "HOL-Library.Multiset" "HOL-Library.Sublist"
begin

section \<open>Cards: \<open>src/utils/cards.ts\<close>\<close>

text \<open>
  A card is the pair of a suit and a value string; the four jokers of the deck are four
  equal values \<open>{suit: 'joker', value: 'Joker'}\<close>, told apart only by their position in
  the deck.
\<close>

datatype Suit = hearts | diamonds | clubs | spades | joker

datatype Card = Card (suit: Suit) (cvalue: string)

text \<open>
  \<open>PlayerCards\<close> is a dictionary from player id to a hand; \<open>GameCards\<close> holds it together
  with the community cards.
\<close>

type_synonym PlayerCards = "string \<rightharpoonup> Card list"

record GameCards =
  players :: PlayerCards
  communityCards :: "Card list"

definition suits :: "Suit list" where
  "suits = [hearts, diamonds, clubs, spades]"

definition cardValues :: "string list" where
  "cardValues = [''2'', ''3'', ''4'', ''5'', ''6'']
                @ [''7'', ''8'', ''9'', ''10'', ''J'', ''Q'', ''K'', ''A'']"

text \<open>
  \<open>createDeck\<close>: the two nested loops push the 52 standard cards suit by suit, the third
  loop pushes four jokers. (The source's list \<open>values\<close> is \<open>cardValues\<close> here.)
\<close>

definition createDeck :: "Card list" where
  "createDeck =
     concat (map (\<lambda>s. map (\<lambda>v. Card s v) cardValues) suits)
     @ replicate 4 (Card joker ''Joker'')"

text \<open>
  \<open>shuffleDeck\<close> copies the deck and runs \<open>for (i = length - 1; i > 0; i--)\<close>, swapping
  positions \<open>i\<close> and \<open>j = Math.floor(Math.random() * (i + 1))\<close>. The random draws are a
  parameter: \<open>rnd i\<close> is the \<open>j\<close> drawn in the iteration with counter \<open>i\<close>. The
  destructuring swap reads both elements before it writes either.
\<close>

fun shuffleLoop :: "(nat \<Rightarrow> nat) \<Rightarrow> nat \<Rightarrow> 'a list \<Rightarrow> 'a list" where
  "shuffleLoop rnd 0 shuffled = shuffled"
| "shuffleLoop rnd (Suc i) shuffled =
     (let j = rnd (Suc i)
      in shuffleLoop rnd i (shuffled[Suc i := shuffled ! j, j := shuffled ! Suc i]))"

definition shuffleDeck :: "(nat \<Rightarrow> nat) \<Rightarrow> 'a list \<Rightarrow> 'a list" where
  "shuffleDeck rnd deck = shuffleLoop rnd (length deck - 1) deck"

text \<open>
  \<open>Array.prototype.slice(start, stop)\<close> for \<open>0 \<le> start\<close>: both bounds are clamped to the
  length, and the result is empty when \<open>stop \<le> start\<close>.
\<close>

definition slice :: "'a list \<Rightarrow> nat \<Rightarrow> nat \<Rightarrow> 'a list" where
  "slice xs start stop = take (stop - start) (drop start xs)"

text \<open>
  The \<open>forEach\<close> of \<open>dealCards\<close>: the player at position \<open>index\<close> is assigned the slice
  \<open>[index * 13, (index + 1) * 13)\<close>; an id listed twice keeps the later assignment.
\<close>

fun dealLoop :: "'a list \<Rightarrow> string list \<Rightarrow> nat \<Rightarrow> (string \<rightharpoonup> 'a list) \<Rightarrow> (string \<rightharpoonup> 'a list)" where
  "dealLoop deck [] index playerCards = playerCards"
| "dealLoop deck (playerId # rest) index playerCards =
     dealLoop deck rest (Suc index)
       (playerCards(playerId \<mapsto> slice deck (index * 13) ((index + 1) * 13)))"

definition dealCards :: "(nat \<Rightarrow> nat) \<Rightarrow> string list \<Rightarrow> GameCards" where
  "dealCards rnd ps =
     (let deck = shuffleDeck rnd createDeck;
          playerCards = dealLoop deck ps 0 Map.empty;
          community = slice deck (length ps * 13) (length ps * 13 + 4)
      in \<lparr>players = playerCards, communityCards = community\<rparr>)"

section \<open>The coordinator: the server part of \<open>src/pages/index.tsx\<close>\<close>

subsection \<open>Data\<close>

datatype Status = Empty | Waiting | Ready | Playing | Summary

record GameRoom =
  player :: "string option"
  isReady :: bool
  capacity :: nat
  status :: Status

record Rows =
  row0 :: "Card list"
  row1 :: "Card list"
  row2 :: "Card list"

record PlayedCard =
  playerId :: string
  roomId :: string
  cards :: Rows
  communityCardUsed :: "Card option"
  confirmed :: bool

text \<open>
  A \<open>PointTransaction\<close> is \<open>{from, to, amount, timestamp}\<close>; the fields \<open>from\<close> and \<open>to\<close>
  are \<open>fromRoom\<close> and \<open>toRoom\<close> here. Amounts and balances are integers, as the ledger
  is specified; \<open>Date.now()\<close> is a parameter of the handler.
\<close>

record PointTransaction =
  fromRoom :: string
  toRoom :: string
  amount :: int
  timestamp :: nat

text \<open>
  The process-wide registries. \<open>rooms\<close> is an object literal with the four keys
  \<open>roomIds\<close>; no key is ever added or removed, so \<open>Object.entries(rooms)\<close> lists the keys
  of \<open>roomIds\<close>, in this order. \<open>playedCards\<close> is enumerated by \<open>Object.values\<close> for the
  summary, so it is an association list in insertion order. \<open>sockets\<close> is the set of
  connected socket ids, \<open>io.sockets.sockets\<close>.
\<close>

record State =
  rooms :: "string \<rightharpoonup> GameRoom"
  playedCards :: "(string \<times> PlayedCard) list"
  readyForNextGame :: "string \<rightharpoonup> bool"
  playerPoints :: "string \<rightharpoonup> int"
  transactions :: "PointTransaction list"
  sockets :: "string set"

definition ROOM_CAPACITY :: nat where
  "ROOM_CAPACITY = 1"

definition roomIds :: "string list" where
  "roomIds = [''room-1'', ''room-2'', ''room-3'', ''room-4'']"

definition emptyRoom :: GameRoom where
  "emptyRoom = \<lparr>player = None, isReady = False, capacity = ROOM_CAPACITY, status = Empty\<rparr>"

definition initState :: State where
  "initState =
     \<lparr>rooms = [''room-1'' \<mapsto> emptyRoom, ''room-2'' \<mapsto> emptyRoom,
               ''room-3'' \<mapsto> emptyRoom, ''room-4'' \<mapsto> emptyRoom],
      playedCards = [],
      readyForNextGame = Map.empty,
      playerPoints = [''room-1'' \<mapsto> 0, ''room-2'' \<mapsto> 0, ''room-3'' \<mapsto> 0, ''room-4'' \<mapsto> 0],
      transactions = [],
      sockets = {}\<rparr>"

text \<open>
  What a handler sends: \<open>io.emit\<close> reaches every connected party, \<open>socket.emit\<close> and
  \<open>playerSocket.emit\<close> one socket. A handler returns the new state and the list of its
  emissions, in order.
\<close>

datatype Audience = ToAll | ToSocket string

datatype SummaryEntry = SummaryEntry string string Rows "Card option"

datatype Message =
    RoomsUpdate "string \<rightharpoonup> GameRoom"
  | PointsUpdate "string \<rightharpoonup> int"
  | TransactionsUpdate "PointTransaction list"
  | JoinedRoom string
  | GameStart "Card list option" "Card list" "string list" string
  | CardsSummary "SummaryEntry list"
  | Error string

type_synonym Emission = "Audience \<times> Message"

subsection \<open>Access to the registries\<close>

text \<open>\<open>Object.entries(rooms)\<close>.\<close>

definition roomEntries :: "State \<Rightarrow> (string \<times> GameRoom) list" where
  "roomEntries s = map (\<lambda>k. (k, the (rooms s k))) (filter (\<lambda>k. rooms s k \<noteq> None) roomIds)"

text \<open>
  A write to fields of the room object stored under a key (\<open>room.status = ...\<close> for an
  entry of the registry, or \<open>rooms[roomId].status = ...\<close>).
\<close>

definition modifyRoom :: "string \<Rightarrow> (GameRoom \<Rightarrow> GameRoom) \<Rightarrow> State \<Rightarrow> State" where
  "modifyRoom k f s = s\<lparr>rooms := (\<lambda>k'. if k' = k then map_option f (rooms s k') else rooms s k')\<rparr>"

text \<open>\<open>playedCards[k] = v\<close> keeps the position of an existing key; \<open>delete playedCards[k]\<close>.\<close>

fun assign :: "string \<Rightarrow> 'v \<Rightarrow> (string \<times> 'v) list \<Rightarrow> (string \<times> 'v) list" where
  "assign k v [] = [(k, v)]"
| "assign k v (e # es) = (if fst e = k then (k, v) # es else e # assign k v es)"

definition remove :: "string \<Rightarrow> (string \<times> 'v) list \<Rightarrow> (string \<times> 'v) list" where
  "remove k es = filter (\<lambda>e. fst e \<noteq> k) es"

definition ensurePlayerPoints :: "string \<Rightarrow> State \<Rightarrow> State" where
  "ensurePlayerPoints k s =
     (if playerPoints s k = None then s\<lparr>playerPoints := (playerPoints s)(k \<mapsto> 0)\<rparr> else s)"

definition getRoomByPlayerId :: "State \<Rightarrow> string \<Rightarrow> string option" where
  "getRoomByPlayerId s pid =
     map_option fst (find (\<lambda>(_, room). player room = Some pid) (roomEntries s))"

subsection \<open>The three condition checks\<close>

text \<open>
  \<open>checkAndStartGame\<close>. The body of its \<open>forEach\<close> over the occupied rooms is
  \<open>startRoom\<close>: the room goes to \<open>playing\<close>, and a connected occupant is sent its hand.
\<close>

definition startRoom ::
  "GameCards \<Rightarrow> string list \<Rightarrow> string \<times> GameRoom \<Rightarrow> State \<times> Emission list \<Rightarrow> State \<times> Emission list" where
  "startRoom gameCards ps = (\<lambda>(k, room) (s, out).
     let s1 = modifyRoom k (\<lambda>r. r\<lparr>status := Playing, isReady := False\<rparr>) s;
         p = the (player room)
     in if p \<in> sockets s1
        then (ensurePlayerPoints k s1,
              out @ [(ToSocket p, GameStart (players gameCards p) (communityCards gameCards) ps k)])
        else (s1, out))"

definition checkAndStartGame :: "(nat \<Rightarrow> nat) \<Rightarrow> State \<Rightarrow> State \<times> Emission list" where
  "checkAndStartGame rnd s =
     (let readyRooms = filter (\<lambda>(_, room). status room = Ready) (roomEntries s);
          roomsWithPlayers = filter (\<lambda>(_, room). player room \<noteq> None) (roomEntries s)
      in if length readyRooms \<ge> 1 \<and> length roomsWithPlayers \<ge> 2 then
           (let ps = map (\<lambda>(_, room). the (player room)) roomsWithPlayers;
                gameCards = dealCards rnd ps;
                s1 = s\<lparr>playedCards := []\<rparr>;
                (s2, out) = fold (startRoom gameCards ps) roomsWithPlayers (s1, [])
            in (s2, out @ [(ToAll, RoomsUpdate (rooms s2)), (ToAll, PointsUpdate (playerPoints s2))]))
         else (s, []))"

text \<open>
  Both other checks end with loops over a list of \<open>{roomId, playerId}\<close> pairs:
  \<open>forEach(({ roomId }) => { if (rooms[roomId]) { rooms[roomId].status = ... } })\<close> is
  \<open>forEachListed\<close> with the field writes as a function, and
  \<open>forEach(({ playerId }) => { readyForNextGame[playerId] = false })\<close> is
  \<open>resetReadyForNext\<close>.
\<close>

definition forEachListed :: "(GameRoom \<Rightarrow> GameRoom) \<Rightarrow> (string \<times> string) list \<Rightarrow> State \<Rightarrow> State" where
  "forEachListed f es s =
     fold (\<lambda>(k, _) t. if rooms t k \<noteq> None then modifyRoom k f t else t) es s"

definition resetReadyForNext :: "(string \<times> string) list \<Rightarrow> State \<Rightarrow> State" where
  "resetReadyForNext es s =
     fold (\<lambda>(_, p) t. t\<lparr>readyForNextGame := (readyForNextGame t)(p \<mapsto> False)\<rparr>) es s"

text \<open>
  \<open>checkAllPlayersConfirmed\<close>; \<open>allPlayed\<close> is only logged.
  \<open>playedCards[playerId]?.confirmed === true\<close> is false for a missing record.
\<close>

definition playingRooms :: "State \<Rightarrow> (string \<times> string) list" where
  "playingRooms s =
     map (\<lambda>(k, room). (k, the (player room)))
       (filter (\<lambda>(_, room). status room = Playing \<and> player room \<noteq> None) (roomEntries s))"

definition checkAllPlayersConfirmed :: "State \<Rightarrow> State \<times> Emission list" where
  "checkAllPlayersConfirmed s =
     (let allConfirmed =
            list_all (\<lambda>(_, p). map_option confirmed (map_of (playedCards s) p) = Some True)
              (playingRooms s)
      in if allConfirmed \<and> length (playingRooms s) \<ge> 2 then
           (let summary = map (\<lambda>played. SummaryEntry (roomId played) (playerId played)
                                 \<lparr>row0 = row0 (cards played), row1 = row1 (cards played),
                                  row2 = row2 (cards played)\<rparr>
                                 (communityCardUsed played))
                            (map snd (playedCards s));
                s1 = forEachListed (\<lambda>r. r\<lparr>status := Summary\<rparr>) (playingRooms s) s;
                s2 = resetReadyForNext (playingRooms s) s1
            in (s2, [(ToAll, CardsSummary summary), (ToAll, RoomsUpdate (rooms s2))]))
         else (s, []))"

text \<open>
  \<open>checkAllPlayersReadyForNextGame\<close>; it clears the records, broadcasts the rooms and
  calls \<open>checkAndStartGame\<close>.
\<close>

definition summaryRooms :: "State \<Rightarrow> (string \<times> string) list" where
  "summaryRooms s =
     map (\<lambda>(k, room). (k, the (player room)))
       (filter (\<lambda>(_, room). status room = Summary \<and> player room \<noteq> None) (roomEntries s))"

definition checkAllPlayersReadyForNextGame :: "(nat \<Rightarrow> nat) \<Rightarrow> State \<Rightarrow> State \<times> Emission list" where
  "checkAllPlayersReadyForNextGame rnd s =
     (let allReady = (length (summaryRooms s) \<ge> 2 \<and>
                      list_all (\<lambda>(_, p). readyForNextGame s p = Some True) (summaryRooms s))
      in if allReady then
           (let s1 = forEachListed (\<lambda>r. r\<lparr>status := Ready, isReady := True\<rparr>) (summaryRooms s) s;
                s2 = s1\<lparr>playedCards := []\<rparr>;
                s3 = s2\<lparr>readyForNextGame := (\<lambda>k. map_option (\<lambda>_. False) (readyForNextGame s2 k))\<rparr>;
                (s4, out) = checkAndStartGame rnd s3
            in (s4, (ToAll, RoomsUpdate (rooms s3)) # out))
         else (s, []))"

subsection \<open>The event handlers\<close>

text \<open>
  Each handler takes the id of the socket it is registered on (\<open>socket.id\<close>), and its
  payload at the type the source gives it: room ids are strings, the card groups are
  lists of cards, an amount is a number, here an integer. On \<open>connection\<close> the socket
  is sent the three registries.
\<close>

definition onConnection :: "string \<Rightarrow> State \<Rightarrow> State \<times> Emission list" where
  "onConnection sid s =
     (let s1 = s\<lparr>sockets := insert sid (sockets s)\<rparr>
      in (s1, [(ToSocket sid, RoomsUpdate (rooms s1)),
               (ToSocket sid, PointsUpdate (playerPoints s1)),
               (ToSocket sid, TransactionsUpdate (transactions s1))]))"

text \<open>
  \<open>joinRoom\<close>: the first loop leaves the rooms the socket holds (\<open>leaveRoom\<close> is its
  body).
\<close>

definition leaveRoom :: "string \<Rightarrow> string \<times> GameRoom \<Rightarrow> State \<Rightarrow> State" where
  "leaveRoom sid = (\<lambda>(k, room) t.
     if player room = Some sid
     then modifyRoom k (\<lambda>r. r\<lparr>player := None, isReady := False, status := Empty\<rparr>) t
     else t)"

definition leaveRooms :: "string \<Rightarrow> State \<Rightarrow> State" where
  "leaveRooms sid s =
     fold (leaveRoom sid) (roomEntries s) s"

definition joinRoom :: "string \<Rightarrow> string \<Rightarrow> State \<Rightarrow> State \<times> Emission list" where
  "joinRoom sid rid s =
     (case rooms s rid of
        None \<Rightarrow> (s, [(ToSocket sid, Error ''Room is not available'')])
      | Some room \<Rightarrow>
          if status room = Playing \<or> player room \<noteq> None
          then (s, [(ToSocket sid, Error ''Room is not available'')])
          else
            (let s1 = leaveRooms sid s;
                 s2 = modifyRoom rid (\<lambda>r. r\<lparr>player := Some sid, status := Waiting, isReady := False\<rparr>) s1
             in (s2, [(ToAll, RoomsUpdate (rooms s2)),
                      (ToAll, PointsUpdate (playerPoints s2)),
                      (ToSocket sid, JoinedRoom rid)])))"

definition toggleReady :: "(nat \<Rightarrow> nat) \<Rightarrow> string \<Rightarrow> string \<Rightarrow> State \<Rightarrow> State \<times> Emission list" where
  "toggleReady rnd sid rid s =
     (case rooms s rid of
        None \<Rightarrow> (s, [])
      | Some room \<Rightarrow>
          if player room \<noteq> Some sid then (s, [])
          else
            (let s1 = modifyRoom rid (\<lambda>r. r\<lparr>isReady := \<not> isReady r,
                                               status := (if \<not> isReady r then Ready else Waiting)\<rparr>) s;
                 (s2, out) = checkAndStartGame rnd s1
             in (s2, (ToAll, RoomsUpdate (rooms s1)) # out)))"

definition confirmCards ::
  "string \<Rightarrow> string \<Rightarrow> Rows \<Rightarrow> Card option \<Rightarrow> State \<Rightarrow> State \<times> Emission list" where
  "confirmCards sid rid cs used s =
     (case rooms s rid of
        None \<Rightarrow> (s, [])
      | Some room \<Rightarrow>
          if player room \<noteq> Some sid \<or> status room \<noteq> Playing then (s, [])
          else
            (let s1 = s\<lparr>playedCards :=
                         assign sid \<lparr>playerId = sid, roomId = rid, cards = cs,
                                     communityCardUsed = used, confirmed = True\<rparr>
                           (playedCards s)\<rparr>
             in checkAllPlayersConfirmed s1))"

text \<open>
  The handler of the event \<open>readyForNextGame\<close> is \<open>readyForNext\<close> here, the name being
  taken by the registry it writes to.
\<close>

definition readyForNext :: "(nat \<Rightarrow> nat) \<Rightarrow> string \<Rightarrow> string \<Rightarrow> State \<Rightarrow> State \<times> Emission list" where
  "readyForNext rnd sid rid s =
     (case rooms s rid of
        None \<Rightarrow> (s, [])
      | Some room \<Rightarrow>
          if player room \<noteq> Some sid \<or> status room \<noteq> Summary then (s, [])
          else
            (let s1 = s\<lparr>readyForNextGame := (readyForNextGame s)(sid \<mapsto> True)\<rparr>
             in checkAllPlayersReadyForNextGame rnd s1))"

text \<open>
  \<open>transferPoints\<close>. \<open>rooms[id]?.player\<close> is undefined for an unknown room, and
  \<open>!fromPlayer\<close> holds for undefined, null and the empty string. The four checks run in
  the source's order, each with its own message for the caller.
\<close>

definition falsy :: "string option \<Rightarrow> bool" where
  "falsy p = (p = None \<or> p = Some [])"

definition transferPoints ::
  "nat \<Rightarrow> string \<Rightarrow> string \<Rightarrow> string \<Rightarrow> int \<Rightarrow> State \<Rightarrow> State \<times> Emission list" where
  "transferPoints now sid fromRoomId toRoomId n s =
     (if n \<le> 0 then (s, [(ToSocket sid, Error ''Cannot transfer zero or negative points'')])
      else
        (let fromPlayer = Option.bind (rooms s fromRoomId) player;
             toPlayer = Option.bind (rooms s toRoomId) player
         in if falsy fromPlayer \<or> falsy toPlayer
            then (s, [(ToSocket sid, Error ''Cannot transfer points - players not found'')])
            else if map_option status (rooms s fromRoomId) \<noteq> Some Summary
                    \<or> map_option status (rooms s toRoomId) \<noteq> Some Summary
            then (s, [(ToSocket sid, Error ''Cannot transfer points - game not in summary state'')])
            else if fromPlayer \<noteq> Some sid
            then (s, [(ToSocket sid, Error ''You can only transfer your own points'')])
            else
              (let s1 = ensurePlayerPoints toRoomId (ensurePlayerPoints fromRoomId s);
                   s2 = s1\<lparr>playerPoints :=
                              (playerPoints s1)(fromRoomId \<mapsto> the (playerPoints s1 fromRoomId) - n)\<rparr>;
                   s3 = s2\<lparr>playerPoints :=
                              (playerPoints s2)(toRoomId \<mapsto> the (playerPoints s2 toRoomId) + n)\<rparr>;
                   s4 = s3\<lparr>transactions :=
                              transactions s3 @ [\<lparr>fromRoom = fromRoomId, toRoom = toRoomId,
                                                   amount = n, timestamp = now\<rparr>]\<rparr>
               in (s4, [(ToAll, PointsUpdate (playerPoints s4)),
                        (ToAll, TransactionsUpdate (transactions s4))]))))"

text \<open>
  \<open>disconnect\<close>: the socket has left \<open>io.sockets.sockets\<close> when the handler runs; every
  room it holds is reset, with a broadcast of the rooms after each reset (\<open>evict\<close> is
  the body of that loop).
\<close>

definition evict :: "string \<Rightarrow> string \<times> GameRoom \<Rightarrow> State \<times> Emission list \<Rightarrow> State \<times> Emission list" where
  "evict sid = (\<lambda>(k, room) (t, out).
     if player room = Some sid
     then (let t1 = modifyRoom k (\<lambda>r. r\<lparr>player := None, isReady := False, status := Empty\<rparr>) t
           in (t1, out @ [(ToAll, RoomsUpdate (rooms t1))]))
     else (t, out))"

definition disconnect :: "string \<Rightarrow> State \<Rightarrow> State \<times> Emission list" where
  "disconnect sid s =
     (let s1 = s\<lparr>sockets := sockets s - {sid}\<rparr>;
          s2 = s1\<lparr>playedCards := remove sid (playedCards s1)\<rparr>;
          s3 = s2\<lparr>readyForNextGame := (readyForNextGame s2)(sid := None)\<rparr>
      in fold (evict sid) (roomEntries s3) (s3, []))"

subsection \<open>Events and reachable states\<close>

datatype Event =
    JoinRoom string
  | ToggleReady string
  | ConfirmCards string Rows "Card option"
  | ReadyForNextGame string
  | TransferPoints string string int
  | Disconnect

text \<open>
  One event, handled to completion: \<open>rnd\<close> are the random draws of a deal the event may
  start, \<open>now\<close> the clock, \<open>sid\<close> the sending socket.
\<close>

fun handle :: "(nat \<Rightarrow> nat) \<Rightarrow> nat \<Rightarrow> string \<Rightarrow> Event \<Rightarrow> State \<Rightarrow> State \<times> Emission list" where
  "handle rnd now sid (JoinRoom rid) s = joinRoom sid rid s"
| "handle rnd now sid (ToggleReady rid) s = toggleReady rnd sid rid s"
| "handle rnd now sid (ConfirmCards rid cs used) s = confirmCards sid rid cs used s"
| "handle rnd now sid (ReadyForNextGame rid) s = readyForNext rnd sid rid s"
| "handle rnd now sid (TransferPoints fromRoomId toRoomId n) s =
     transferPoints now sid fromRoomId toRoomId n s"
| "handle rnd now sid Disconnect s = disconnect sid s"

text \<open>
  The states the server can be in: it starts in \<open>initState\<close>; a socket with a fresh,
  non-empty id connects; a connected socket sends an event.
\<close>

inductive reachable :: "State \<Rightarrow> bool" where
  reachable_init: "reachable initState"
| reachable_connect:
    "reachable s \<Longrightarrow> sid \<noteq> [] \<Longrightarrow> sid \<notin> sockets s \<Longrightarrow> reachable (fst (onConnection sid s))"
| reachable_event:
    "reachable s \<Longrightarrow> sid \<in> sockets s \<Longrightarrow> reachable (fst (handle rnd now sid ev s))"

text \<open>Running a list of events from a state, for concrete scenarios.\<close>

datatype Input = Connect string | Receive "nat \<Rightarrow> nat" nat string Event

fun run :: "Input list \<Rightarrow> State \<Rightarrow> State" where
  "run [] s = s"
| "run (Connect sid # rest) s = run rest (fst (onConnection sid s))"
| "run (Receive rnd now sid ev # rest) s = run rest (fst (handle rnd now sid ev s))"

subsection \<open>States of scenarios, and auxiliary notions\<close>

text \<open>
  A lobby in which socket \<open>a\<close> holds room 1 and is ready, and socket \<open>b\<close> holds room 3
  and waits.
\<close>

definition lobby :: State where
  "lobby = initState\<lparr>rooms := (rooms initState)
              (''room-1'' \<mapsto> \<lparr>player = Some ''a'', isReady = True, capacity = 1, status = Ready\<rparr>,
               ''room-3'' \<mapsto> \<lparr>player = Some ''b'', isReady = False, capacity = 1, status = Waiting\<rparr>),
            sockets := {''a'', ''b''}\<rparr>"

text \<open>
  The state in which \<open>checkAllPlayersReadyForNextGame\<close> broadcasts the rooms and calls
  \<open>checkAndStartGame\<close>, when it fires.
\<close>

definition rearmed :: "State \<Rightarrow> State" where
  "rearmed s =
     (forEachListed (\<lambda>r. r\<lparr>status := Ready, isReady := True\<rparr>) (summaryRooms s) s)
       \<lparr>playedCards := [],
        readyForNextGame := (\<lambda>k. map_option (\<lambda>_. False) (readyForNextGame s k))\<rparr>"

text \<open>
  An invariant of the reachable states: the registry has exactly the four rooms, each
  with a balance; a room has no occupant exactly when its status is \<open>empty\<close>; every
  occupant is a connected socket; no socket id is empty.
\<close>

definition seatOk :: "string set \<Rightarrow> GameRoom \<Rightarrow> bool" where
  "seatOk socks r \<longleftrightarrow>
     (player r = None \<longleftrightarrow> status r = Empty) \<and> (\<forall>p. player r = Some p \<longrightarrow> p \<in> socks)"

definition wellFormed :: "State \<Rightarrow> bool" where
  "wellFormed s \<longleftrightarrow>
     dom (rooms s) = set roomIds \<and> set roomIds \<subseteq> dom (playerPoints s) \<and> [] \<notin> sockets s
     \<and> (\<forall>k r. rooms s k = Some r \<longrightarrow> seatOk (sockets s) r)"

text \<open>
  A list of inputs is admissible from a state when every connecting socket has a
  fresh, non-empty id and every event comes from a connected socket.
\<close>

fun admissible :: "Input list \<Rightarrow> State \<Rightarrow> bool" where
  "admissible [] s = True"
| "admissible (Connect sid # rest) s =
     (sid \<noteq> [] \<and> sid \<notin> sockets s \<and> admissible rest (fst (onConnection sid s)))"
| "admissible (Receive rnd now sid ev # rest) s =
     (sid \<in> sockets s \<and> admissible rest (fst (handle rnd now sid ev s)))"

text \<open>
  Sockets \<open>a\<close> and \<open>b\<close> have joined rooms 1 and 2, \<open>a\<close> has toggled ready, so both
  play; then \<open>a\<close> has confirmed a hand (of no cards).
\<close>

definition twoPlaying :: State where
  "twoPlaying = run [Connect ''a'', Connect ''b'',
      Receive (\<lambda>i. 0) 0 ''a'' (JoinRoom ''room-1''),
      Receive (\<lambda>i. 0) 0 ''b'' (JoinRoom ''room-2''),
      Receive (\<lambda>i. 0) 0 ''a'' (ToggleReady ''room-1''),
      Receive (\<lambda>i. 0) 0 ''a'' (ConfirmCards ''room-1'' \<lparr>row0 = [], row1 = [], row2 = []\<rparr> None)]
     initState"

text \<open>
  From there \<open>b\<close> has confirmed too, so both seats are in \<open>summary\<close>, and \<open>a\<close> has
  declared itself ready for the next game.
\<close>

definition twoSummary :: State where
  "twoSummary = run
     [Receive (\<lambda>i. 0) 0 ''b'' (ConfirmCards ''room-2'' \<lparr>row0 = [], row1 = [], row2 = []\<rparr> None),
      Receive (\<lambda>i. 0) 0 ''a'' (ReadyForNextGame ''room-1'')]
     twoPlaying"

section \<open>Properties of the deal\<close>

lemma length_shuffleLoop [simp]: "length (shuffleLoop rnd i xs) = length xs"
  by (induction i arbitrary: xs) (simp_all add: Let_def)



lemma length_shuffleDeck [simp]: "length (shuffleDeck rnd deck) = length deck"
  by (simp add: shuffleDeck_def)





lemma length_slice: "stop \<le> length xs \<Longrightarrow> length (slice xs start stop) = stop - start"
  by (simp add: slice_def)


lemma dealLoop_other: "p \<notin> set ps \<Longrightarrow> dealLoop deck ps i m p = m p"
  by (induction ps arbitrary: i m) simp_all

lemma dealLoop_listed:
  "p \<in> set ps \<Longrightarrow>
   \<exists>k. i \<le> k \<and> k < i + length ps \<and> dealLoop deck ps i m p = Some (slice deck (k * 13) ((k + 1) * 13))"
proof (induction ps arbitrary: i m)
  case Nil
  then show ?case by simp
next
  case (Cons q ps)
  show ?case
  proof (cases "p \<in> set ps")
    case True
    from Cons.IH[OF True, of "Suc i" "m(q \<mapsto> slice deck (i * 13) ((i + 1) * 13))"]
    obtain k where "Suc i \<le> k" "k < Suc i + length ps"
      "dealLoop deck ps (Suc i) (m(q \<mapsto> slice deck (i * 13) ((i + 1) * 13))) p
       = Some (slice deck (k * 13) ((k + 1) * 13))" by blast
    then show ?thesis by (intro exI[of _ k]) simp
  next
    case False
    with Cons.prems have "p = q" by simp
    with False show ?thesis by (intro exI[of _ i]) (simp add: dealLoop_other)
  qed
qed





lemma length_createDeck: "length createDeck = 56"
  by (simp add: createDeck_def suits_def cardValues_def)







section \<open>Properties of the coordinator\<close>

subsection \<open>The registries under the loops\<close>

lemma roomIds_distinct: "distinct roomIds"
  by (simp add: roomIds_def)

lemma set_roomEntries:
  "set (roomEntries s) = {(k, r). k \<in> set roomIds \<and> rooms s k = Some r}"
  by (auto simp: roomEntries_def)

lemma roomEntries_cong: "rooms t = rooms s \<Longrightarrow> roomEntries t = roomEntries s"
  by (simp add: roomEntries_def)

lemma length_roomEntries: "length (roomEntries s) \<le> 4"
proof -
  have "length (roomEntries s) \<le> length roomIds"
    by (simp add: roomEntries_def)
  then show ?thesis by (simp add: roomIds_def)
qed

lemma distinct_roomEntries: "distinct (map fst (roomEntries s))"
  by (simp add: roomEntries_def comp_def roomIds_distinct)

lemma fold_keys_rooms:
  assumes step: "\<And>e a. proj (step e a) =
      (if P e then (\<lambda>k'. if k' = key e then map_option f (proj a k') else proj a k') else proj a)"
    and idem: "\<And>r. f (f r) = f r"
  shows "proj (fold step es a) =
      (\<lambda>k. if k \<in> key ` {e \<in> set es. P e} then map_option f (proj a k) else proj a k)"
proof (induction es arbitrary: a)
  case Nil
  then show ?case by simp
next
  case (Cons e es)
  have "proj (fold step (e # es) a) = proj (fold step es (step e a))" by simp
  also have "\<dots> = (\<lambda>k. if k \<in> key ` {e \<in> set es. P e} then map_option f (proj (step e a) k)
                          else proj (step e a) k)"
    by (rule Cons.IH)
  also have "\<dots> = (\<lambda>k. if k \<in> key ` {e' \<in> set (e # es). P e'} then map_option f (proj a k) else proj a k)"
    by (rule ext) (auto simp: step idem option.map_comp comp_def)
  finally show ?case .
qed

lemma fold_keeps:
  assumes "\<And>e a. g (step e a) = g a"
  shows "g (fold step es a) = g a"
  by (induction es arbitrary: a) (simp_all add: assms)


lemma rooms_modifyRoom:
  "rooms (modifyRoom k f s) = (\<lambda>k'. if k' = k then map_option f (rooms s k') else rooms s k')"
  by (simp add: modifyRoom_def)

lemma other_modifyRoom [simp]:
  "playedCards (modifyRoom k f s) = playedCards s"
  "readyForNextGame (modifyRoom k f s) = readyForNextGame s"
  "playerPoints (modifyRoom k f s) = playerPoints s"
  "transactions (modifyRoom k f s) = transactions s"
  "sockets (modifyRoom k f s) = sockets s"
  by (simp_all add: modifyRoom_def)

lemma other_ensurePlayerPoints [simp]:
  "rooms (ensurePlayerPoints k s) = rooms s"
  "playedCards (ensurePlayerPoints k s) = playedCards s"
  "readyForNextGame (ensurePlayerPoints k s) = readyForNextGame s"
  "transactions (ensurePlayerPoints k s) = transactions s"
  "sockets (ensurePlayerPoints k s) = sockets s"
  by (simp_all add: ensurePlayerPoints_def)

lemma points_ensurePlayerPoints:
  "playerPoints (ensurePlayerPoints k s) k' =
     (if k' = k \<and> playerPoints s k = None then Some 0 else playerPoints s k')"
  by (simp add: ensurePlayerPoints_def)

lemma startRoom_rooms:
  "rooms (fst (startRoom gc ps e a)) =
     (\<lambda>k'. if k' = fst e then map_option (\<lambda>r. r\<lparr>status := Playing, isReady := False\<rparr>) (rooms (fst a) k')
           else rooms (fst a) k')"
  by (cases e; cases a; simp add: startRoom_def Let_def rooms_modifyRoom fun_eq_iff)

lemma startRoom_keeps:
  "playedCards (fst (startRoom gc ps e a)) = playedCards (fst a)"
  "readyForNextGame (fst (startRoom gc ps e a)) = readyForNextGame (fst a)"
  "transactions (fst (startRoom gc ps e a)) = transactions (fst a)"
  "sockets (fst (startRoom gc ps e a)) = sockets (fst a)"
  by (cases e; cases a; clarsimp simp: startRoom_def Let_def)+

lemma startRoom_points:
  "playerPoints (fst a) k = Some v \<Longrightarrow> playerPoints (fst (startRoom gc ps e a)) k = Some v"
  by (cases e; cases a) (auto simp: startRoom_def Let_def points_ensurePlayerPoints)

lemma fold_startRoom_rooms:
  "rooms (fst (fold (startRoom gc ps) es a)) =
     (\<lambda>k. if k \<in> fst ` set es
          then map_option (\<lambda>r. r\<lparr>status := Playing, isReady := False\<rparr>) (rooms (fst a) k)
          else rooms (fst a) k)"
  using fold_keys_rooms[where proj = "\<lambda>a. rooms (fst a)" and step = "startRoom gc ps"
      and P = "\<lambda>_. True" and key = fst
      and f = "\<lambda>r. r\<lparr>status := Playing, isReady := False\<rparr>" and es = es and a = a]
  by (simp add: startRoom_rooms)

lemma fold_startRoom_keeps:
  "playedCards (fst (fold (startRoom gc ps) es a)) = playedCards (fst a)"
  "readyForNextGame (fst (fold (startRoom gc ps) es a)) = readyForNextGame (fst a)"
  "transactions (fst (fold (startRoom gc ps) es a)) = transactions (fst a)"
  "sockets (fst (fold (startRoom gc ps) es a)) = sockets (fst a)"
  by (rule fold_keeps, simp add: startRoom_keeps)+

lemma fold_startRoom_points:
  "playerPoints (fst a) k = Some v \<Longrightarrow> playerPoints (fst (fold (startRoom gc ps) es a)) k = Some v"
  by (induction es arbitrary: a) (simp_all add: startRoom_points)

lemma occupied_keys:
  "fst ` set (filter (\<lambda>(_, room). P room) (roomEntries s))
   = {k \<in> set roomIds. \<exists>r. rooms s k = Some r \<and> P r}"
  by (force simp: set_roomEntries)

lemma checkAndStartGame_idle:
  "\<not> (length (filter (\<lambda>(_, room). status room = Ready) (roomEntries s)) \<ge> 1
      \<and> length (filter (\<lambda>(_, room). player room \<noteq> None) (roomEntries s)) \<ge> 2)
   \<Longrightarrow> checkAndStartGame rnd s = (s, [])"
  unfolding checkAndStartGame_def Let_def by (rule if_not_P)

lemma checkAndStartGame_fires:
  assumes "length (filter (\<lambda>(_, room). status room = Ready) (roomEntries s)) \<ge> 1"
    and "length (filter (\<lambda>(_, room). player room \<noteq> None) (roomEntries s)) \<ge> 2"
  shows "rooms (fst (checkAndStartGame rnd s)) =
           (\<lambda>k. if k \<in> set roomIds
                then map_option (\<lambda>r. if player r \<noteq> None then r\<lparr>status := Playing, isReady := False\<rparr> else r)
                       (rooms s k)
                else rooms s k)"
    and "playedCards (fst (checkAndStartGame rnd s)) = []"
    and "\<exists>out. snd (checkAndStartGame rnd s) =
           out @ [(ToAll, RoomsUpdate (rooms (fst (checkAndStartGame rnd s)))),
                  (ToAll, PointsUpdate (playerPoints (fst (checkAndStartGame rnd s))))]"
proof -
  let ?occ = "filter (\<lambda>(_, room). player room \<noteq> None) (roomEntries s)"
  let ?ps = "map (\<lambda>(_, room). the (player room)) ?occ"
  let ?res = "fold (startRoom (dealCards rnd ?ps) ?ps) ?occ (s\<lparr>playedCards := []\<rparr>, [])"
  have eq: "checkAndStartGame rnd s =
      (fst ?res, snd ?res @ [(ToAll, RoomsUpdate (rooms (fst ?res))),
                             (ToAll, PointsUpdate (playerPoints (fst ?res)))])"
    using assms by (simp add: checkAndStartGame_def Let_def case_prod_beta)
  show "rooms (fst (checkAndStartGame rnd s)) =
           (\<lambda>k. if k \<in> set roomIds
                then map_option (\<lambda>r. if player r \<noteq> None then r\<lparr>status := Playing, isReady := False\<rparr> else r)
                       (rooms s k)
                else rooms s k)"
    unfolding eq fst_conv fold_startRoom_rooms occupied_keys
    by (rule ext) (auto simp: map_option_case split: option.splits)
  show "playedCards (fst (checkAndStartGame rnd s)) = []"
    unfolding eq fst_conv by (simp add: fold_startRoom_keeps)
  show "\<exists>out. snd (checkAndStartGame rnd s) =
           out @ [(ToAll, RoomsUpdate (rooms (fst (checkAndStartGame rnd s)))),
                  (ToAll, PointsUpdate (playerPoints (fst (checkAndStartGame rnd s))))]"
    unfolding eq by simp
qed

lemma checkAndStartGame_keeps:
  "readyForNextGame (fst (checkAndStartGame rnd s)) = readyForNextGame s"
  "transactions (fst (checkAndStartGame rnd s)) = transactions s"
  "sockets (fst (checkAndStartGame rnd s)) = sockets s"
  by (simp_all add: checkAndStartGame_def Let_def case_prod_beta fold_startRoom_keeps)

lemma checkAndStartGame_points:
  "playerPoints s k = Some v \<Longrightarrow> playerPoints (fst (checkAndStartGame rnd s)) k = Some v"
  by (simp add: checkAndStartGame_def Let_def case_prod_beta fold_startRoom_points)


lemma playingRooms_keys:
  "fst ` set (playingRooms s)
   = {k \<in> set roomIds. \<exists>r. rooms s k = Some r \<and> status r = Playing \<and> player r \<noteq> None}"
  by (force simp: playingRooms_def set_roomEntries)

lemma playingRooms_players:
  "snd ` set (playingRooms s)
   = {p. \<exists>k \<in> set roomIds. \<exists>r. rooms s k = Some r \<and> status r = Playing \<and> player r = Some p}"
  by (force simp: playingRooms_def set_roomEntries)

lemma set_playingRooms:
  "set (playingRooms s)
   = {(k, p). k \<in> set roomIds \<and> (\<exists>r. rooms s k = Some r \<and> status r = Playing \<and> player r = Some p)}"
  by (force simp: playingRooms_def set_roomEntries)

lemma set_summaryRooms:
  "set (summaryRooms s)
   = {(k, p). k \<in> set roomIds \<and> (\<exists>r. rooms s k = Some r \<and> status r = Summary \<and> player r = Some p)}"
  by (force simp: summaryRooms_def set_roomEntries)

lemma forEachListed_rooms:
  "rooms (forEachListed f es s)
   = (\<lambda>k. if k \<in> fst ` set es then map_option f (rooms s k) else rooms s k)"
  if "\<And>r. f (f r) = f r"
  unfolding forEachListed_def
  using fold_keys_rooms[where proj = rooms
      and step = "\<lambda>(k, _) t. if rooms t k \<noteq> None then modifyRoom k f t else t"
      and P = "\<lambda>_. True" and key = fst and f = f and es = es and a = s] that
  by (simp add: case_prod_beta rooms_modifyRoom fun_eq_iff)

lemma forEachListed_keeps [simp]:
  "playedCards (forEachListed f es s) = playedCards s"
  "readyForNextGame (forEachListed f es s) = readyForNextGame s"
  "playerPoints (forEachListed f es s) = playerPoints s"
  "transactions (forEachListed f es s) = transactions s"
  "sockets (forEachListed f es s) = sockets s"
  unfolding forEachListed_def by (rule fold_keeps, simp add: case_prod_beta)+

lemma resetReadyForNext_keeps [simp]:
  "rooms (resetReadyForNext es s) = rooms s"
  "playedCards (resetReadyForNext es s) = playedCards s"
  "playerPoints (resetReadyForNext es s) = playerPoints s"
  "transactions (resetReadyForNext es s) = transactions s"
  "sockets (resetReadyForNext es s) = sockets s"
  unfolding resetReadyForNext_def by (rule fold_keeps, simp add: case_prod_beta)+

lemma resetReadyForNext_flags:
  "readyForNextGame (resetReadyForNext es s)
   = (\<lambda>p. if p \<in> snd ` set es then Some False else readyForNextGame s p)"
  unfolding resetReadyForNext_def
  by (induction es arbitrary: s) (auto simp: fun_eq_iff)

lemma checkAllPlayersConfirmed_idle:
  "\<not> (list_all (\<lambda>(_, p). map_option confirmed (map_of (playedCards s) p) = Some True) (playingRooms s)
      \<and> length (playingRooms s) \<ge> 2)
   \<Longrightarrow> checkAllPlayersConfirmed s = (s, [])"
  unfolding checkAllPlayersConfirmed_def Let_def by (rule if_not_P)

lemma checkAllPlayersConfirmed_fires:
  assumes "list_all (\<lambda>(_, p). map_option confirmed (map_of (playedCards s) p) = Some True) (playingRooms s)"
    and "length (playingRooms s) \<ge> 2"
  shows "rooms (fst (checkAllPlayersConfirmed s)) =
           (\<lambda>k. if k \<in> fst ` set (playingRooms s)
                then map_option (\<lambda>r. r\<lparr>status := Summary\<rparr>) (rooms s k) else rooms s k)"
    and "readyForNextGame (fst (checkAllPlayersConfirmed s)) =
           (\<lambda>p. if p \<in> snd ` set (playingRooms s) then Some False else readyForNextGame s p)"
    and "playedCards (fst (checkAllPlayersConfirmed s)) = playedCards s"
    and "playerPoints (fst (checkAllPlayersConfirmed s)) = playerPoints s"
    and "transactions (fst (checkAllPlayersConfirmed s)) = transactions s"
    and "sockets (fst (checkAllPlayersConfirmed s)) = sockets s"
    and "\<exists>summ. snd (checkAllPlayersConfirmed s) =
           [(ToAll, CardsSummary summ), (ToAll, RoomsUpdate (rooms (fst (checkAllPlayersConfirmed s))))]"
  using assms
  by (simp_all add: checkAllPlayersConfirmed_def Let_def resetReadyForNext_flags
      forEachListed_rooms cong: if_cong)

subsection \<open>The Start transition\<close>

lemma startRoom_out_mono: "set (snd a) \<subseteq> set (snd (startRoom gc ps e a))"
  by (cases e; cases a) (auto simp: startRoom_def Let_def)

lemma fold_startRoom_out_mono: "set (snd a) \<subseteq> set (snd (fold (startRoom gc ps) es a))"
proof (induction es arbitrary: a)
  case Nil
  then show ?case by simp
next
  case (Cons e es)
  have "set (snd a) \<subseteq> set (snd (startRoom gc ps e a))" by (rule startRoom_out_mono)
  also have "\<dots> \<subseteq> set (snd (fold (startRoom gc ps) es (startRoom gc ps e a)))" by (rule Cons.IH)
  finally show ?case by simp
qed

lemma fold_startRoom_out:
  assumes "(k, room) \<in> set es" and "the (player room) \<in> sockets (fst a)"
  shows "(ToSocket (the (player room)),
          GameStart (players gc (the (player room))) (communityCards gc) ps k)
         \<in> set (snd (fold (startRoom gc ps) es a))"
  using assms
proof (induction es arbitrary: a)
  case Nil
  then show ?case by simp
next
  case (Cons e es)
  show ?case
  proof (cases "e = (k, room)")
    case True
    have "(ToSocket (the (player room)),
           GameStart (players gc (the (player room))) (communityCards gc) ps k)
          \<in> set (snd (startRoom gc ps e a))"
      using Cons.prems(2) True by (cases a) (simp add: startRoom_def Let_def)
    then show ?thesis
      using fold_startRoom_out_mono[of "startRoom gc ps e a" gc ps es] by auto
  next
    case False
    then have "(k, room) \<in> set es" using Cons.prems(1) by simp
    moreover have "the (player room) \<in> sockets (fst (startRoom gc ps e a))"
      using Cons.prems(2) by (simp add: startRoom_keeps)
    ultimately show ?thesis using Cons.IH by simp
  qed
qed

lemma dealCards_hand:
  assumes "length ps \<le> 4" and "p \<in> set ps"
  shows "\<exists>hand. players (dealCards rnd ps) p = Some hand \<and> length hand = 13"
proof -
  let ?deck = "shuffleDeck rnd createDeck"
  obtain k where k: "k < length ps"
    and h: "dealLoop ?deck ps 0 Map.empty p = Some (slice ?deck (k * 13) ((k + 1) * 13))"
    using dealLoop_listed[OF assms(2), of 0 ?deck Map.empty] by auto
  have "(k + 1) * 13 \<le> length ?deck" using k assms(1) by (simp add: length_createDeck)
  then have "length (slice ?deck (k * 13) ((k + 1) * 13)) = 13"
    by (simp add: length_slice)
  with h show ?thesis by (simp add: dealCards_def Let_def)
qed

lemma dealCards_community:
  "length ps \<le> 4 \<Longrightarrow> length (communityCards (dealCards rnd ps)) = 4"
  by (simp add: dealCards_def Let_def length_slice length_createDeck)

lemma checkAndStartGame_deals:
  assumes fires: "length (filter (\<lambda>(_, room). status room = Ready) (roomEntries s)) \<ge> 1"
      "length (filter (\<lambda>(_, room). player room \<noteq> None) (roomEntries s)) \<ge> 2"
    and seat: "k \<in> set roomIds" "rooms s k = Some r" "player r = Some p" "p \<in> sockets s"
  shows "\<exists>hand community ps.
           (ToSocket p, GameStart (Some hand) community ps k) \<in> set (snd (checkAndStartGame rnd s))
           \<and> length hand = 13 \<and> length community = 4"
proof -
  define occ where "occ = filter (\<lambda>(_, room). player room \<noteq> None) (roomEntries s)"
  define ps where "ps = map (\<lambda>(_, room). the (player room)) occ"
  define gc where "gc = dealCards rnd ps"
  define res where "res = fold (startRoom gc ps) occ (s\<lparr>playedCards := []\<rparr>, [])"
  have eq: "checkAndStartGame rnd s =
      (fst res, snd res @ [(ToAll, RoomsUpdate (rooms (fst res))),
                           (ToAll, PointsUpdate (playerPoints (fst res)))])"
    unfolding res_def gc_def ps_def occ_def
    using fires by (simp add: checkAndStartGame_def Let_def case_prod_beta)
  have mem: "(k, r) \<in> set occ" using seat by (simp add: occ_def set_roomEntries)
  then have pin: "p \<in> set ps" unfolding ps_def using seat(3) by force
  have "length occ \<le> length (roomEntries s)" unfolding occ_def by (rule length_filter_le)
  then have len: "length ps \<le> 4"
    using length_roomEntries[of s] by (simp add: ps_def)
  obtain hand where hand: "players gc p = Some hand" "length hand = 13"
    using dealCards_hand[OF len pin] unfolding gc_def by blast
  have "(ToSocket (the (player r)), GameStart (players gc (the (player r))) (communityCards gc) ps k)
        \<in> set (snd res)"
    unfolding res_def by (rule fold_startRoom_out[OF mem]) (simp add: seat)
  then have "(ToSocket p, GameStart (Some hand) (communityCards gc) ps k)
             \<in> set (snd (checkAndStartGame rnd s))"
    unfolding eq by (simp add: seat hand)
  moreover have "length (communityCards gc) = 4"
    unfolding gc_def by (rule dealCards_community[OF len])
  ultimately show ?thesis using hand(2) by blast
qed

text \<open>
  Claim C5. In every state (so in every reachable one), \<open>checkAndStartGame\<close> does
  nothing, changing no state and sending nothing, when fewer than two seats have an
  occupant, however many seats are ready. It fires exactly when at least one seat has
  status \<open>ready\<close> and at least two seats are occupied; it then moves every occupied
  seat to \<open>playing\<close> with the ready flag cleared and sends each connected occupant a
  hand of 13 cards with the 4 community cards.
\<close>

theorem start_needs_two_occupied:
  "(length (filter (\<lambda>(_, room). player room \<noteq> None) (roomEntries s)) < 2
      \<longrightarrow> checkAndStartGame rnd s = (s, []))
   \<and> ((checkAndStartGame rnd s \<noteq> (s, []))
        = (1 \<le> length (filter (\<lambda>(_, room). status room = Ready) (roomEntries s))
           \<and> 2 \<le> length (filter (\<lambda>(_, room). player room \<noteq> None) (roomEntries s))))
   \<and> (1 \<le> length (filter (\<lambda>(_, room). status room = Ready) (roomEntries s))
        \<and> 2 \<le> length (filter (\<lambda>(_, room). player room \<noteq> None) (roomEntries s))
      \<longrightarrow> (\<forall>k \<in> set roomIds. \<forall>r p. rooms s k = Some r \<and> player r = Some p
            \<longrightarrow> rooms (fst (checkAndStartGame rnd s)) k = Some (r\<lparr>status := Playing, isReady := False\<rparr>)
                \<and> (p \<in> sockets s \<longrightarrow>
                      (\<exists>hand community ps.
                         (ToSocket p, GameStart (Some hand) community ps k)
                           \<in> set (snd (checkAndStartGame rnd s))
                         \<and> length hand = 13 \<and> length community = 4))))"
proof (intro conjI impI ballI allI)
  assume "length (filter (\<lambda>(_, room). player room \<noteq> None) (roomEntries s)) < 2"
  then show "checkAndStartGame rnd s = (s, [])"
    by (intro checkAndStartGame_idle) simp
next
  show "(checkAndStartGame rnd s \<noteq> (s, []))
        = (1 \<le> length (filter (\<lambda>(_, room). status room = Ready) (roomEntries s))
           \<and> 2 \<le> length (filter (\<lambda>(_, room). player room \<noteq> None) (roomEntries s)))"
  proof (cases "1 \<le> length (filter (\<lambda>(_, room). status room = Ready) (roomEntries s))
           \<and> 2 \<le> length (filter (\<lambda>(_, room). player room \<noteq> None) (roomEntries s))")
    case True
    then obtain out where "snd (checkAndStartGame rnd s) =
           out @ [(ToAll, RoomsUpdate (rooms (fst (checkAndStartGame rnd s)))),
                  (ToAll, PointsUpdate (playerPoints (fst (checkAndStartGame rnd s))))]"
      using checkAndStartGame_fires(3)[of s rnd] by blast
    then have "snd (checkAndStartGame rnd s) \<noteq> []" by simp
    then have "checkAndStartGame rnd s \<noteq> (s, [])" by auto
    with True show ?thesis by simp
  next
    case False
    then show ?thesis using checkAndStartGame_idle[of s rnd] by blast
  qed
next
  fix k r p
  assume c: "1 \<le> length (filter (\<lambda>(_, room). status room = Ready) (roomEntries s))
        \<and> 2 \<le> length (filter (\<lambda>(_, room). player room \<noteq> None) (roomEntries s))"
    and k: "k \<in> set roomIds" and r: "rooms s k = Some r \<and> player r = Some p"
  show "rooms (fst (checkAndStartGame rnd s)) k = Some (r\<lparr>status := Playing, isReady := False\<rparr>)"
    using c k r by (simp add: checkAndStartGame_fires(1))
  assume "p \<in> sockets s"
  then show "\<exists>hand community ps.
               (ToSocket p, GameStart (Some hand) community ps k) \<in> set (snd (checkAndStartGame rnd s))
               \<and> length hand = 13 \<and> length community = 4"
    using checkAndStartGame_deals[of s k r p rnd] c k r by blast
qed

lemma roomEntries_lobby:
  "roomEntries lobby =
     [(''room-1'', \<lparr>player = Some ''a'', isReady = True, capacity = 1, status = Ready\<rparr>),
      (''room-2'', emptyRoom),
      (''room-3'', \<lparr>player = Some ''b'', isReady = False, capacity = 1, status = Waiting\<rparr>),
      (''room-4'', emptyRoom)]"
  by (simp add: lobby_def initState_def roomEntries_def roomIds_def)

text \<open>The theorem at the lobby, where Start fires, and at the initial state, where it does not.\<close>

theorem start_needs_two_occupied_witness:
  "1 \<le> length (filter (\<lambda>(_, room). status room = Ready) (roomEntries lobby))
   \<and> 2 \<le> length (filter (\<lambda>(_, room). player room \<noteq> None) (roomEntries lobby))
   \<and> checkAndStartGame (\<lambda>i. 0) lobby \<noteq> (lobby, [])
   \<and> rooms (fst (checkAndStartGame (\<lambda>i. 0) lobby)) ''room-3''
       = Some \<lparr>player = Some ''b'', isReady = False, capacity = 1, status = Playing\<rparr>
   \<and> length (filter (\<lambda>(_, room). player room \<noteq> None) (roomEntries initState)) < 2
   \<and> checkAndStartGame (\<lambda>i. 0) initState = (initState, [])"
proof -
  have c: "1 \<le> length (filter (\<lambda>(_, room). status room = Ready) (roomEntries lobby))
      \<and> 2 \<le> length (filter (\<lambda>(_, room). player room \<noteq> None) (roomEntries lobby))"
    by (simp add: roomEntries_lobby emptyRoom_def)
  have k: "''room-3'' \<in> set roomIds" by (simp add: roomIds_def)
  have r: "rooms lobby ''room-3''
           = Some \<lparr>player = Some ''b'', isReady = False, capacity = 1, status = Waiting\<rparr>"
    by (simp add: lobby_def)
  have e: "length (filter (\<lambda>(_, room). player room \<noteq> None) (roomEntries initState)) < 2"
    by (simp add: initState_def roomEntries_def roomIds_def emptyRoom_def)
  from start_needs_two_occupied[of lobby "\<lambda>i. 0"] start_needs_two_occupied[of initState "\<lambda>i. 0"]
    c k r e
  show ?thesis by auto
qed

subsection \<open>Leaving, disconnecting and re-arming\<close>

lemma leaveRoom_rooms:
  "rooms (leaveRoom sid e t) =
     (if player (snd e) = Some sid
      then (\<lambda>k'. if k' = fst e
                 then map_option (\<lambda>r. r\<lparr>player := None, isReady := False, status := Empty\<rparr>) (rooms t k')
                 else rooms t k')
      else rooms t)"
  by (cases e) (simp add: leaveRoom_def rooms_modifyRoom)

lemma leaveRoom_keeps [simp]:
  "playedCards (leaveRoom sid e t) = playedCards t"
  "readyForNextGame (leaveRoom sid e t) = readyForNextGame t"
  "playerPoints (leaveRoom sid e t) = playerPoints t"
  "transactions (leaveRoom sid e t) = transactions t"
  "sockets (leaveRoom sid e t) = sockets t"
  by (cases e; simp add: leaveRoom_def)+

lemma held_keys:
  "k \<in> fst ` {e \<in> set (roomEntries s). player (snd e) = Some sid}
   \<longleftrightarrow> k \<in> set roomIds \<and> (\<exists>r. rooms s k = Some r \<and> player r = Some sid)"
  by (force simp: set_roomEntries)

lemma leaveRooms_rooms:
  "rooms (leaveRooms sid s) =
     (\<lambda>k. if k \<in> set roomIds
          then map_option (\<lambda>r. if player r = Some sid
                                then r\<lparr>player := None, isReady := False, status := Empty\<rparr> else r)
                 (rooms s k)
          else rooms s k)"
proof -
  have "rooms (fold (leaveRoom sid) (roomEntries s) s) =
      (\<lambda>k. if k \<in> fst ` {e \<in> set (roomEntries s). player (snd e) = Some sid}
           then map_option (\<lambda>r. r\<lparr>player := None, isReady := False, status := Empty\<rparr>) (rooms s k)
           else rooms s k)"
    by (rule fold_keys_rooms) (simp_all add: leaveRoom_rooms)
  then show ?thesis
    unfolding leaveRooms_def held_keys
    by (auto simp: fun_eq_iff map_option_case split: option.splits)
qed

lemma leaveRooms_keeps [simp]:
  "playedCards (leaveRooms sid s) = playedCards s"
  "readyForNextGame (leaveRooms sid s) = readyForNextGame s"
  "playerPoints (leaveRooms sid s) = playerPoints s"
  "transactions (leaveRooms sid s) = transactions s"
  "sockets (leaveRooms sid s) = sockets s"
  unfolding leaveRooms_def by (rule fold_keeps, simp)+

lemma evict_rooms:
  "rooms (fst (evict sid e a)) =
     (if player (snd e) = Some sid
      then (\<lambda>k'. if k' = fst e
                 then map_option (\<lambda>r. r\<lparr>player := None, isReady := False, status := Empty\<rparr>) (rooms (fst a) k')
                 else rooms (fst a) k')
      else rooms (fst a))"
  by (cases e; cases a) (simp add: evict_def Let_def rooms_modifyRoom cong: if_cong)

lemma evict_keeps:
  "playedCards (fst (evict sid e a)) = playedCards (fst a)"
  "readyForNextGame (fst (evict sid e a)) = readyForNextGame (fst a)"
  "playerPoints (fst (evict sid e a)) = playerPoints (fst a)"
  "transactions (fst (evict sid e a)) = transactions (fst a)"
  "sockets (fst (evict sid e a)) = sockets (fst a)"
  by (cases e; cases a; simp add: evict_def Let_def)+

lemma fold_evict_rooms:
  "rooms (fst (fold (evict sid) (roomEntries s) a)) =
     (\<lambda>k. if k \<in> set roomIds \<and> (\<exists>r. rooms s k = Some r \<and> player r = Some sid)
          then map_option (\<lambda>r. r\<lparr>player := None, isReady := False, status := Empty\<rparr>) (rooms (fst a) k)
          else rooms (fst a) k)"
proof -
  have "rooms (fst (fold (evict sid) (roomEntries s) a)) =
      (\<lambda>k. if k \<in> fst ` {e \<in> set (roomEntries s). player (snd e) = Some sid}
           then map_option (\<lambda>r. r\<lparr>player := None, isReady := False, status := Empty\<rparr>) (rooms (fst a) k)
           else rooms (fst a) k)"
    by (rule fold_keys_rooms[where proj = "\<lambda>a. rooms (fst a)"]) (simp_all add: evict_rooms)
  then show ?thesis unfolding held_keys .
qed

lemma fold_evict_keeps:
  "playedCards (fst (fold (evict sid) es a)) = playedCards (fst a)"
  "readyForNextGame (fst (fold (evict sid) es a)) = readyForNextGame (fst a)"
  "playerPoints (fst (fold (evict sid) es a)) = playerPoints (fst a)"
  "transactions (fst (fold (evict sid) es a)) = transactions (fst a)"
  "sockets (fst (fold (evict sid) es a)) = sockets (fst a)"
  by (rule fold_keeps, simp add: evict_keeps)+

lemma disconnect_rooms:
  "rooms (fst (disconnect sid s)) =
     (\<lambda>k. if k \<in> set roomIds
          then map_option (\<lambda>r. if player r = Some sid
                                then r\<lparr>player := None, isReady := False, status := Empty\<rparr> else r)
                 (rooms s k)
          else rooms s k)"
proof -
  define s3 where "s3 = s\<lparr>sockets := sockets s - {sid}, playedCards := remove sid (playedCards s),
                          readyForNextGame := (readyForNextGame s)(sid := None)\<rparr>"
  have d: "disconnect sid s = fold (evict sid) (roomEntries s3) (s3, [])"
    by (simp add: disconnect_def Let_def s3_def)
  have r: "rooms s3 = rooms s" by (simp add: s3_def)
  show ?thesis
    unfolding d fold_evict_rooms fst_conv r
    by (auto simp: fun_eq_iff map_option_case split: option.splits)
qed

lemma disconnect_fields:
  "playedCards (fst (disconnect sid s)) = remove sid (playedCards s)"
  "readyForNextGame (fst (disconnect sid s)) = (readyForNextGame s)(sid := None)"
  "playerPoints (fst (disconnect sid s)) = playerPoints s"
  "transactions (fst (disconnect sid s)) = transactions s"
  "sockets (fst (disconnect sid s)) = sockets s - {sid}"
  by (simp_all add: disconnect_def Let_def fold_evict_keeps)

lemma length_filter_mono:
  "(\<And>x. x \<in> set xs \<Longrightarrow> P x \<Longrightarrow> Q x) \<Longrightarrow> length (filter P xs) \<le> length (filter Q xs)"
  by (induction xs) auto

lemma count_entries:
  "length (filter (\<lambda>(_, room). Q room) (roomEntries s))
   = length (filter (\<lambda>k. \<exists>r. rooms s k = Some r \<and> Q r) roomIds)"
proof -
  have "filter (\<lambda>(_, room). Q room) (roomEntries s)
        = map (\<lambda>k. (k, the (rooms s k)))
            (filter (\<lambda>k. \<exists>r. rooms s k = Some r \<and> Q r) roomIds)"
    unfolding roomEntries_def filter_map filter_filter comp_def
    by (rule arg_cong[where f = "map _"], rule filter_cong) auto
  then show ?thesis by simp
qed

lemma length_summaryRooms:
  "length (summaryRooms s)
   = length (filter (\<lambda>k. \<exists>r. rooms s k = Some r \<and> status r = Summary \<and> player r \<noteq> None) roomIds)"
  unfolding summaryRooms_def length_map by (rule count_entries)

lemma length_playingRooms:
  "length (playingRooms s)
   = length (filter (\<lambda>k. \<exists>r. rooms s k = Some r \<and> status r = Playing \<and> player r \<noteq> None) roomIds)"
  unfolding playingRooms_def length_map by (rule count_entries)

lemma summaryRooms_keys:
  "k \<in> fst ` set (summaryRooms s)
   \<longleftrightarrow> k \<in> set roomIds \<and> (\<exists>r. rooms s k = Some r \<and> status r = Summary \<and> player r \<noteq> None)"
  by (force simp: set_summaryRooms)

lemma rearmed_rooms:
  "rooms (rearmed s) k =
     map_option (\<lambda>r. if k \<in> set roomIds \<and> status r = Summary \<and> player r \<noteq> None
                      then r\<lparr>status := Ready, isReady := True\<rparr> else r)
       (rooms s k)"
  by (cases "rooms s k") (auto simp: rearmed_def forEachListed_rooms summaryRooms_keys)

lemma rearmed_seat:
  "k \<in> set roomIds \<Longrightarrow> rooms s k = Some r \<Longrightarrow> status r = Summary \<Longrightarrow> player r \<noteq> None
   \<Longrightarrow> rooms (rearmed s) k = Some (r\<lparr>status := Ready, isReady := True\<rparr>)"
  by (simp add: rearmed_rooms)

lemma rearmed_fields [simp]:
  "playedCards (rearmed s) = []"
  "readyForNextGame (rearmed s) = (\<lambda>k. map_option (\<lambda>_. False) (readyForNextGame s k))"
  "playerPoints (rearmed s) = playerPoints s"
  "transactions (rearmed s) = transactions s"
  "sockets (rearmed s) = sockets s"
  by (simp_all add: rearmed_def)

lemma checkAllPlayersReadyForNextGame_idle:
  "\<not> (length (summaryRooms s) \<ge> 2
      \<and> list_all (\<lambda>(_, p). readyForNextGame s p = Some True) (summaryRooms s))
   \<Longrightarrow> checkAllPlayersReadyForNextGame rnd s = (s, [])"
  unfolding checkAllPlayersReadyForNextGame_def Let_def by (rule if_not_P)

lemma checkAllPlayersReadyForNextGame_fires:
  assumes "length (summaryRooms s) \<ge> 2"
    and "list_all (\<lambda>(_, p). readyForNextGame s p = Some True) (summaryRooms s)"
  shows "checkAllPlayersReadyForNextGame rnd s =
           (fst (checkAndStartGame rnd (rearmed s)),
            (ToAll, RoomsUpdate (rooms (rearmed s))) # snd (checkAndStartGame rnd (rearmed s)))"
  using assms
  by (simp add: checkAllPlayersReadyForNextGame_def Let_def case_prod_beta rearmed_def)

lemma rearmed_starts:
  assumes "length (summaryRooms s) \<ge> 2"
  shows "length (filter (\<lambda>(_, room). status room = Ready) (roomEntries (rearmed s))) \<ge> 1"
    and "length (filter (\<lambda>(_, room). player room \<noteq> None) (roomEntries (rearmed s))) \<ge> 2"
proof -
  have "length (summaryRooms s)
        \<le> length (filter (\<lambda>k. \<exists>r. rooms (rearmed s) k = Some r \<and> status r = Ready) roomIds)"
    unfolding length_summaryRooms
    by (rule length_filter_mono) (use rearmed_seat[of _ s] in fastforce)
  then show "length (filter (\<lambda>(_, room). status room = Ready) (roomEntries (rearmed s))) \<ge> 1"
    using assms unfolding count_entries by simp
  have "length (summaryRooms s)
        \<le> length (filter (\<lambda>k. \<exists>r. rooms (rearmed s) k = Some r \<and> player r \<noteq> None) roomIds)"
    unfolding length_summaryRooms
    by (rule length_filter_mono) (use rearmed_seat[of _ s] in fastforce)
  then show "length (filter (\<lambda>(_, room). player room \<noteq> None) (roomEntries (rearmed s))) \<ge> 2"
    using assms unfolding count_entries by simp
qed

subsection \<open>The invariant of the reachable states\<close>

lemma wellFormed_step:
  assumes wf: "wellFormed s"
    and rooms: "\<And>k. rooms s' k = map_option (g k) (rooms s k)"
    and ok: "\<And>k r. rooms s k = Some r \<Longrightarrow> seatOk (sockets s) r \<Longrightarrow> seatOk (sockets s') (g k r)"
    and socks: "[] \<notin> sockets s'"
    and points: "dom (playerPoints s) \<subseteq> dom (playerPoints s')"
  shows "wellFormed s'"
proof -
  have "dom (rooms s') = dom (rooms s)" by (auto simp: rooms dom_def)
  moreover have "seatOk (sockets s') r'" if "rooms s' k = Some r'" for k r'
  proof -
    from that obtain r where "rooms s k = Some r" "r' = g k r" by (auto simp: rooms)
    with wf ok show ?thesis by (auto simp: wellFormed_def)
  qed
  ultimately show ?thesis using wf socks points unfolding wellFormed_def by blast
qed

lemma wellFormed_initState: "wellFormed initState"
  by (auto simp: wellFormed_def initState_def roomIds_def seatOk_def emptyRoom_def split: if_splits)

lemma wellFormed_onConnection:
  "wellFormed s \<Longrightarrow> sid \<noteq> [] \<Longrightarrow> wellFormed (fst (onConnection sid s))"
  by (rule wellFormed_step[where g = "\<lambda>_ r. r"])
     (auto simp: onConnection_def Let_def option.map_ident seatOk_def wellFormed_def)

lemma wellFormed_modifyRoom:
  assumes "wellFormed s" and "\<And>r. rooms s k = Some r \<Longrightarrow> seatOk (sockets s) r \<Longrightarrow> seatOk (sockets s) (f r)"
  shows "wellFormed (modifyRoom k f s)"
  by (rule wellFormed_step[OF assms(1), where g = "\<lambda>k' r. if k' = k then f r else r"])
     (use assms in \<open>auto simp: rooms_modifyRoom option.map_ident wellFormed_def\<close>)

lemma wellFormed_checkAndStartGame:
  assumes "wellFormed s"
  shows "wellFormed (fst (checkAndStartGame rnd s))"
proof (cases "length (filter (\<lambda>(_, room). status room = Ready) (roomEntries s)) \<ge> 1
      \<and> length (filter (\<lambda>(_, room). player room \<noteq> None) (roomEntries s)) \<ge> 2")
  case True
  show ?thesis
  proof (rule wellFormed_step[OF assms, where g = "\<lambda>k r. if k \<in> set roomIds
      then (if player r \<noteq> None then r\<lparr>status := Playing, isReady := False\<rparr> else r) else r"])
    show "rooms (fst (checkAndStartGame rnd s)) k
        = map_option (\<lambda>r. if k \<in> set roomIds
            then (if player r \<noteq> None then r\<lparr>status := Playing, isReady := False\<rparr> else r) else r)
          (rooms s k)" for k
      using True by (simp add: checkAndStartGame_fires(1) option.map_ident)
    show "seatOk (sockets (fst (checkAndStartGame rnd s)))
           (if k \<in> set roomIds
            then (if player r \<noteq> None then r\<lparr>status := Playing, isReady := False\<rparr> else r) else r)"
      if "seatOk (sockets s) r" for k r
      using that by (auto simp: checkAndStartGame_keeps seatOk_def)
    show "[] \<notin> sockets (fst (checkAndStartGame rnd s))"
      using assms by (simp add: checkAndStartGame_keeps wellFormed_def)
    show "dom (playerPoints s) \<subseteq> dom (playerPoints (fst (checkAndStartGame rnd s)))"
      using checkAndStartGame_points[of s _ _ rnd] by (auto simp: dom_def)
  qed
next
  case False
  then show ?thesis using assms by (simp add: checkAndStartGame_idle)
qed

lemma wellFormed_checkAllPlayersConfirmed:
  assumes "wellFormed s"
  shows "wellFormed (fst (checkAllPlayersConfirmed s))"
proof (cases "list_all (\<lambda>(_, p). map_option confirmed (map_of (playedCards s) p) = Some True) (playingRooms s)
      \<and> length (playingRooms s) \<ge> 2")
  case True
  show ?thesis
  proof (rule wellFormed_step[OF assms, where g = "\<lambda>k r. if k \<in> fst ` set (playingRooms s)
      then r\<lparr>status := Summary\<rparr> else r"])
    show "rooms (fst (checkAllPlayersConfirmed s)) k
        = map_option (\<lambda>r. if k \<in> fst ` set (playingRooms s) then r\<lparr>status := Summary\<rparr> else r)
          (rooms s k)" for k
      using True by (simp add: checkAllPlayersConfirmed_fires(1) option.map_ident)
    show "seatOk (sockets (fst (checkAllPlayersConfirmed s)))
           (if k \<in> fst ` set (playingRooms s) then r\<lparr>status := Summary\<rparr> else r)"
      if "rooms s k = Some r" "seatOk (sockets s) r" for k r
      using that True by (auto simp: checkAllPlayersConfirmed_fires(6) seatOk_def playingRooms_keys)
    show "[] \<notin> sockets (fst (checkAllPlayersConfirmed s))"
      using assms True by (simp add: checkAllPlayersConfirmed_fires(6) wellFormed_def)
    show "dom (playerPoints s) \<subseteq> dom (playerPoints (fst (checkAllPlayersConfirmed s)))"
      using True by (simp add: checkAllPlayersConfirmed_fires(4))
  qed
next
  case False
  then show ?thesis using assms by (simp add: checkAllPlayersConfirmed_idle)
qed

lemma wellFormed_rearmed:
  assumes "wellFormed s"
  shows "wellFormed (rearmed s)"
proof (rule wellFormed_step[OF assms, where g = "\<lambda>k r.
      if k \<in> set roomIds \<and> status r = Summary \<and> player r \<noteq> None
      then r\<lparr>status := Ready, isReady := True\<rparr> else r"])
  show "rooms (rearmed s) k
      = map_option (\<lambda>r. if k \<in> set roomIds \<and> status r = Summary \<and> player r \<noteq> None
            then r\<lparr>status := Ready, isReady := True\<rparr> else r) (rooms s k)" for k
    by (rule rearmed_rooms)
  show "seatOk (sockets (rearmed s))
         (if k \<in> set roomIds \<and> status r = Summary \<and> player r \<noteq> None
          then r\<lparr>status := Ready, isReady := True\<rparr> else r)"
    if "rooms s k = Some r" "seatOk (sockets s) r" for k r
    using that by (auto simp: seatOk_def)
  show "[] \<notin> sockets (rearmed s)" using assms by (simp add: wellFormed_def)
  show "dom (playerPoints s) \<subseteq> dom (playerPoints (rearmed s))" by simp
qed

lemma wellFormed_checkAllPlayersReadyForNextGame:
  assumes "wellFormed s"
  shows "wellFormed (fst (checkAllPlayersReadyForNextGame rnd s))"
proof (cases "length (summaryRooms s) \<ge> 2
      \<and> list_all (\<lambda>(_, p). readyForNextGame s p = Some True) (summaryRooms s)")
  case True
  then show ?thesis
    using assms
    by (simp add: checkAllPlayersReadyForNextGame_fires wellFormed_rearmed wellFormed_checkAndStartGame)
next
  case False
  then show ?thesis using assms by (simp add: checkAllPlayersReadyForNextGame_idle)
qed

lemma wellFormed_fields:
  "wellFormed (s\<lparr>playedCards := pc\<rparr>) = wellFormed s"
  "wellFormed (s\<lparr>readyForNextGame := fl\<rparr>) = wellFormed s"
  "wellFormed (s\<lparr>transactions := ts\<rparr>) = wellFormed s"
  by (simp_all add: wellFormed_def)

lemma wellFormed_key: "wellFormed s \<Longrightarrow> rooms s k = Some r \<Longrightarrow> k \<in> set roomIds"
  by (auto simp: wellFormed_def)

lemma wellFormed_leaveRooms:
  assumes "wellFormed s"
  shows "wellFormed (leaveRooms sid s)"
  by (rule wellFormed_step[OF assms, where g = "\<lambda>k r. if k \<in> set roomIds
        then (if player r = Some sid then r\<lparr>player := None, isReady := False, status := Empty\<rparr> else r)
        else r"])
     (use assms in \<open>auto simp: leaveRooms_rooms option.map_ident seatOk_def wellFormed_def\<close>)

lemma wellFormed_joinRoom:
  assumes "wellFormed s" and "sid \<in> sockets s"
  shows "wellFormed (fst (joinRoom sid rid s))"
proof (cases "rooms s rid")
  case None
  then show ?thesis using assms by (simp add: joinRoom_def)
next
  case (Some room)
  show ?thesis
  proof (cases "status room = Playing \<or> player room \<noteq> None")
    case True
    then show ?thesis using assms Some by (simp add: joinRoom_def)
  next
    case False
    have "wellFormed (modifyRoom rid (\<lambda>r. r\<lparr>player := Some sid, status := Waiting, isReady := False\<rparr>)
            (leaveRooms sid s))"
      by (rule wellFormed_modifyRoom[OF wellFormed_leaveRooms[OF assms(1)]])
         (simp add: seatOk_def assms(2))
    then show ?thesis using Some False by (simp add: joinRoom_def Let_def)
  qed
qed

lemma wellFormed_toggleReady:
  assumes "wellFormed s"
  shows "wellFormed (fst (toggleReady rnd sid rid s))"
proof (cases "rooms s rid")
  case None
  then show ?thesis using assms by (simp add: toggleReady_def)
next
  case (Some room)
  show ?thesis
  proof (cases "player room = Some sid")
    case False
    then show ?thesis using assms Some by (simp add: toggleReady_def)
  next
    case True
    have "wellFormed (modifyRoom rid (\<lambda>r. r\<lparr>isReady := \<not> isReady r,
                        status := (if \<not> isReady r then Ready else Waiting)\<rparr>) s)"
      by (rule wellFormed_modifyRoom[OF assms]) (use Some True in \<open>auto simp: seatOk_def\<close>)
    then show ?thesis
      using Some True
      by (simp add: toggleReady_def Let_def case_prod_beta wellFormed_checkAndStartGame)
  qed
qed

lemma wellFormed_confirmCards:
  "wellFormed s \<Longrightarrow> wellFormed (fst (confirmCards sid rid cs used s))"
  by (auto simp: confirmCards_def Let_def wellFormed_fields wellFormed_checkAllPlayersConfirmed
      split: option.splits)

lemma wellFormed_readyForNext:
  "wellFormed s \<Longrightarrow> wellFormed (fst (readyForNext rnd sid rid s))"
  by (auto simp: readyForNext_def Let_def wellFormed_fields wellFormed_checkAllPlayersReadyForNextGame
      split: option.splits)

lemma wellFormed_transferPoints:
  assumes "wellFormed s"
  shows "wellFormed (fst (transferPoints now sid a b n s))"
  by (rule wellFormed_step[OF assms, where g = "\<lambda>_ r. r"])
     (use assms in \<open>auto simp: transferPoints_def Let_def option.map_ident wellFormed_def
        ensurePlayerPoints_def\<close>)

lemma wellFormed_disconnect:
  assumes "wellFormed s"
  shows "wellFormed (fst (disconnect sid s))"
  by (rule wellFormed_step[OF assms, where g = "\<lambda>k r. if k \<in> set roomIds
        then (if player r = Some sid then r\<lparr>player := None, isReady := False, status := Empty\<rparr> else r)
        else r"])
     (use assms in \<open>auto simp: disconnect_rooms disconnect_fields option.map_ident seatOk_def
        wellFormed_def\<close>)

lemma wellFormed_handle:
  "wellFormed s \<Longrightarrow> sid \<in> sockets s \<Longrightarrow> wellFormed (fst (handle rnd now sid ev s))"
  by (cases ev)
     (simp_all add: wellFormed_joinRoom wellFormed_toggleReady wellFormed_confirmCards
        wellFormed_readyForNext wellFormed_transferPoints wellFormed_disconnect)

lemma reachable_wellFormed: "reachable s \<Longrightarrow> wellFormed s"
  by (induction rule: reachable.induct)
     (simp_all add: wellFormed_initState wellFormed_onConnection wellFormed_handle)

subsection \<open>The Summarize and Next-round transitions\<close>

lemma reachable_run: "reachable s \<Longrightarrow> admissible inputs s \<Longrightarrow> reachable (run inputs s)"
proof (induction inputs s rule: run.induct)
  case (1 s)
  then show ?case by simp
next
  case (2 sid rest s)
  then show ?case by (simp add: reachable_connect)
next
  case (3 rnd now sid ev rest s)
  then show ?case by (simp add: reachable_event)
qed

lemma reachable_twoPlaying: "reachable twoPlaying"
  unfolding twoPlaying_def by (rule reachable_run[OF reachable_init]) code_simp

lemma playing_occupied:
  "wellFormed s \<Longrightarrow> rooms s k = Some r \<Longrightarrow> status r = Playing \<Longrightarrow> \<exists>p. player r = Some p"
  unfolding wellFormed_def seatOk_def by (metis Status.distinct not_Some_eq)

lemma list_all_playingRooms:
  "list_all (\<lambda>(_, p). Q p) (playingRooms s)
   \<longleftrightarrow> (\<forall>k \<in> set roomIds. \<forall>r p. rooms s k = Some r \<and> status r = Playing \<and> player r = Some p \<longrightarrow> Q p)"
  by (auto simp: list_all_iff set_playingRooms)

text \<open>
  Claim C6. \<open>checkAllPlayersConfirmed\<close> runs in \<open>confirmCards\<close>, on a reachable state
  in which the sender's record has just been stored: a reachable state \<open>s\<close> with some
  registry \<open>pc\<close> of played cards (\<open>pc = playedCards s\<close> gives \<open>s\<close> itself). Whenever it
  fires there (it emits something), every seat with status \<open>playing\<close> has an occupant
  whose stored record is confirmed, and at least two seats are playing; it then emits
  \<open>cardsSummary\<close> and moves the playing seats to \<open>summary\<close>. When it emits nothing, it
  changes nothing.
\<close>

theorem summarize_needs_all_confirmed:
  assumes "reachable s"
  shows "(snd (checkAllPlayersConfirmed (s\<lparr>playedCards := pc\<rparr>)) \<noteq> []
          \<longrightarrow> (\<forall>k r. rooms s k = Some r \<and> status r = Playing
                 \<longrightarrow> (\<exists>p h. player r = Some p \<and> map_of pc p = Some h \<and> confirmed h))
              \<and> 2 \<le> length (filter (\<lambda>(_, room). status room = Playing) (roomEntries s))
              \<and> (\<exists>summ. (ToAll, CardsSummary summ) \<in> set (snd (checkAllPlayersConfirmed (s\<lparr>playedCards := pc\<rparr>))))
              \<and> (\<forall>k r. rooms s k = Some r \<and> status r = Playing
                 \<longrightarrow> rooms (fst (checkAllPlayersConfirmed (s\<lparr>playedCards := pc\<rparr>))) k
                      = Some (r\<lparr>status := Summary\<rparr>)))
       \<and> (snd (checkAllPlayersConfirmed (s\<lparr>playedCards := pc\<rparr>)) = []
          \<longrightarrow> fst (checkAllPlayersConfirmed (s\<lparr>playedCards := pc\<rparr>)) = s\<lparr>playedCards := pc\<rparr>)"
proof -
  define t where "t = s\<lparr>playedCards := pc\<rparr>"
  have wf: "wellFormed t"
    using reachable_wellFormed[OF assms] by (simp add: t_def wellFormed_fields)
  have rt: "rooms t = rooms s" and pt: "playedCards t = pc" by (simp_all add: t_def)
  have et: "roomEntries t = roomEntries s" by (rule roomEntries_cong[OF rt])
  let ?cond = "list_all (\<lambda>(_, p). map_option confirmed (map_of (playedCards t) p) = Some True) (playingRooms t)
      \<and> length (playingRooms t) \<ge> 2"
  have idle: "checkAllPlayersConfirmed t = (t, [])" if "\<not> ?cond"
    using that by (rule checkAllPlayersConfirmed_idle)
  have fires: "(\<forall>k r. rooms t k = Some r \<and> status r = Playing
                 \<longrightarrow> (\<exists>p h. player r = Some p \<and> map_of pc p = Some h \<and> confirmed h))
              \<and> 2 \<le> length (filter (\<lambda>(_, room). status room = Playing) (roomEntries t))
              \<and> (\<exists>summ. (ToAll, CardsSummary summ) \<in> set (snd (checkAllPlayersConfirmed t)))
              \<and> (\<forall>k r. rooms t k = Some r \<and> status r = Playing
                 \<longrightarrow> rooms (fst (checkAllPlayersConfirmed t)) k = Some (r\<lparr>status := Summary\<rparr>))"
    if c: "?cond"
  proof (intro conjI allI impI)
    fix k r
    assume kr: "rooms t k = Some r \<and> status r = Playing"
    then obtain p where p: "player r = Some p" using playing_occupied[OF wf] by blast
    have k: "k \<in> set roomIds" using wellFormed_key[OF wf] kr by blast
    from c have "map_option confirmed (map_of pc p) = Some True"
      unfolding list_all_playingRooms pt using k kr p by blast
    then show "\<exists>p h. player r = Some p \<and> map_of pc p = Some h \<and> confirmed h"
      using p by auto
    have "k \<in> fst ` set (playingRooms t)" using k kr p by (auto simp: playingRooms_keys)
    then show "rooms (fst (checkAllPlayersConfirmed t)) k = Some (r\<lparr>status := Summary\<rparr>)"
      using c kr by (simp add: checkAllPlayersConfirmed_fires(1))
  next
    have "filter (\<lambda>k. \<exists>r. rooms t k = Some r \<and> status r = Playing \<and> player r \<noteq> None) roomIds
          = filter (\<lambda>k. \<exists>r. rooms t k = Some r \<and> status r = Playing) roomIds"
      by (rule filter_cong) (use playing_occupied[OF wf] in auto)
    then show "2 \<le> length (filter (\<lambda>(_, room). status room = Playing) (roomEntries t))"
      using c unfolding count_entries length_playingRooms by simp
  next
    show "\<exists>summ. (ToAll, CardsSummary summ) \<in> set (snd (checkAllPlayersConfirmed t))"
      using checkAllPlayersConfirmed_fires(7)[of t] c by auto
  qed
  show ?thesis
    unfolding t_def[symmetric] using idle fires unfolding rt et
    by (cases ?cond) auto
qed

text \<open>
  The theorem at the scenario state, once with the record of \<open>b\<close> stored (Summarize
  fires) and once as it is (it does not).
\<close>

theorem summarize_needs_all_confirmed_witness:
  "reachable twoPlaying
   \<and> snd (checkAllPlayersConfirmed
        (twoPlaying\<lparr>playedCards :=
           assign ''b'' \<lparr>playerId = ''b'', roomId = ''room-2'',
                         cards = \<lparr>row0 = [], row1 = [], row2 = []\<rparr>,
                         communityCardUsed = None, confirmed = True\<rparr> (playedCards twoPlaying)\<rparr>)) \<noteq> []
   \<and> 2 \<le> length (filter (\<lambda>(_, room). status room = Playing) (roomEntries twoPlaying))
   \<and> snd (checkAllPlayersConfirmed (twoPlaying\<lparr>playedCards := playedCards twoPlaying\<rparr>)) = []"
proof -
  have f: "snd (checkAllPlayersConfirmed
        (twoPlaying\<lparr>playedCards :=
           assign ''b'' \<lparr>playerId = ''b'', roomId = ''room-2'',
                         cards = \<lparr>row0 = [], row1 = [], row2 = []\<rparr>,
                         communityCardUsed = None, confirmed = True\<rparr> (playedCards twoPlaying)\<rparr>)) \<noteq> []"
    by code_simp
  have g: "snd (checkAllPlayersConfirmed (twoPlaying\<lparr>playedCards := playedCards twoPlaying\<rparr>)) = []"
    by code_simp
  from summarize_needs_all_confirmed[OF reachable_twoPlaying] f g reachable_twoPlaying
  show ?thesis by blast
qed

lemma summaryRooms_twoSummary:
  "summaryRooms (twoSummary\<lparr>readyForNextGame := (readyForNextGame twoSummary)(''b'' \<mapsto> True)\<rparr>)
   = [(''room-1'', ''a''), (''room-2'', ''b'')]"
  by code_simp

text \<open>
  Claim C7. When \<open>checkAllPlayersReadyForNextGame\<close> fires (at least two occupied seats
  are in \<open>summary\<close> and the occupant of each has its ready-for-next flag set), there is
  an intermediate state \<open>mid\<close>, the one broadcast by \<open>roomsUpdate\<close>, in which each such
  seat has status \<open>ready\<close> with its ready flag set, no played cards are stored and no
  ready-for-next flag is set. In the same step \<open>checkAndStartGame\<close> runs on \<open>mid\<close>,
  where its condition holds: in the resulting state every occupied seat is \<open>playing\<close>,
  and every connected occupant has been sent a new hand of 13 cards with 4 community
  cards.
\<close>

theorem next_round_rearms_and_redeals:
  assumes "2 \<le> length (summaryRooms s)"
    and "list_all (\<lambda>(_, p). readyForNextGame s p = Some True) (summaryRooms s)"
  shows "\<exists>mid.
      checkAllPlayersReadyForNextGame rnd s
        = (fst (checkAndStartGame rnd mid),
           (ToAll, RoomsUpdate (rooms mid)) # snd (checkAndStartGame rnd mid))
    \<and> (\<forall>k \<in> set roomIds. \<forall>r. rooms s k = Some r
          \<longrightarrow> rooms mid k = Some (if status r = Summary \<and> player r \<noteq> None
                                   then r\<lparr>status := Ready, isReady := True\<rparr> else r))
    \<and> playedCards mid = [] \<and> (\<forall>p. readyForNextGame mid p \<noteq> Some True)
    \<and> 1 \<le> length (filter (\<lambda>(_, room). status room = Ready) (roomEntries mid))
    \<and> 2 \<le> length (filter (\<lambda>(_, room). player room \<noteq> None) (roomEntries mid))
    \<and> (\<forall>k \<in> set roomIds. \<forall>r p. rooms s k = Some r \<and> player r = Some p
          \<longrightarrow> rooms (fst (checkAllPlayersReadyForNextGame rnd s)) k
                = Some (r\<lparr>status := Playing, isReady := False\<rparr>)
              \<and> (p \<in> sockets s \<longrightarrow>
                    (\<exists>hand community ps.
                       (ToSocket p, GameStart (Some hand) community ps k)
                         \<in> set (snd (checkAllPlayersReadyForNextGame rnd s))
                       \<and> length hand = 13 \<and> length community = 4)))
    \<and> playedCards (fst (checkAllPlayersReadyForNextGame rnd s)) = []
    \<and> (\<forall>p. readyForNextGame (fst (checkAllPlayersReadyForNextGame rnd s)) p \<noteq> Some True)"
proof (intro exI[of _ "rearmed s"] conjI ballI allI impI)
  note st = rearmed_starts[OF assms(1)]
  show eq: "checkAllPlayersReadyForNextGame rnd s
        = (fst (checkAndStartGame rnd (rearmed s)),
           (ToAll, RoomsUpdate (rooms (rearmed s))) # snd (checkAndStartGame rnd (rearmed s)))"
    by (rule checkAllPlayersReadyForNextGame_fires[OF assms])
  show "playedCards (rearmed s) = []" by simp
  show "readyForNextGame (rearmed s) p \<noteq> Some True" for p by simp
  show "1 \<le> length (filter (\<lambda>(_, room). status room = Ready) (roomEntries (rearmed s)))"
    by (rule st(1))
  show "2 \<le> length (filter (\<lambda>(_, room). player room \<noteq> None) (roomEntries (rearmed s)))"
    by (rule st(2))
  show "playedCards (fst (checkAllPlayersReadyForNextGame rnd s)) = []"
    unfolding eq fst_conv by (rule checkAndStartGame_fires(2)[OF st])
  show "readyForNextGame (fst (checkAllPlayersReadyForNextGame rnd s)) p \<noteq> Some True" for p
    unfolding eq fst_conv by (simp add: checkAndStartGame_keeps)
  show "rooms (rearmed s) k = Some (if status r = Summary \<and> player r \<noteq> None
                                   then r\<lparr>status := Ready, isReady := True\<rparr> else r)"
    if "k \<in> set roomIds" "rooms s k = Some r" for k r
    using that by (simp add: rearmed_rooms)
  fix k r p
  assume k: "k \<in> set roomIds" and r: "rooms s k = Some r \<and> player r = Some p"
  define r' where "r' = (if status r = Summary then r\<lparr>status := Ready, isReady := True\<rparr> else r)"
  have mid: "rooms (rearmed s) k = Some r'" and p': "player r' = Some p"
    using k r by (simp_all add: rearmed_rooms r'_def)
  have "rooms (fst (checkAndStartGame rnd (rearmed s))) k = Some (r'\<lparr>status := Playing, isReady := False\<rparr>)"
    using k mid p' by (simp add: checkAndStartGame_fires(1)[OF st])
  then show "rooms (fst (checkAllPlayersReadyForNextGame rnd s)) k
        = Some (r\<lparr>status := Playing, isReady := False\<rparr>)"
    unfolding eq fst_conv by (simp add: r'_def)
  assume "p \<in> sockets s"
  then have "p \<in> sockets (rearmed s)" by simp
  from checkAndStartGame_deals[OF st k mid p' this, of rnd]
  show "\<exists>hand community ps.
          (ToSocket p, GameStart (Some hand) community ps k)
            \<in> set (snd (checkAllPlayersReadyForNextGame rnd s))
          \<and> length hand = 13 \<and> length community = 4"
    unfolding eq snd_conv by auto
qed

text \<open>The theorem at the scenario state in which \<open>b\<close> declares itself ready as well.\<close>

theorem next_round_rearms_and_redeals_witness:
  "2 \<le> length (summaryRooms (twoSummary\<lparr>readyForNextGame := (readyForNextGame twoSummary)(''b'' \<mapsto> True)\<rparr>))
   \<and> list_all (\<lambda>(_, p). readyForNextGame
        (twoSummary\<lparr>readyForNextGame := (readyForNextGame twoSummary)(''b'' \<mapsto> True)\<rparr>) p = Some True)
       (summaryRooms (twoSummary\<lparr>readyForNextGame := (readyForNextGame twoSummary)(''b'' \<mapsto> True)\<rparr>))
   \<and> playedCards (fst (checkAllPlayersReadyForNextGame (\<lambda>i. 0)
        (twoSummary\<lparr>readyForNextGame := (readyForNextGame twoSummary)(''b'' \<mapsto> True)\<rparr>))) = []"
proof -
  have a: "2 \<le> length (summaryRooms (twoSummary\<lparr>readyForNextGame := (readyForNextGame twoSummary)(''b'' \<mapsto> True)\<rparr>))"
    by (simp add: summaryRooms_twoSummary)
  have b: "list_all (\<lambda>(_, p). readyForNextGame
        (twoSummary\<lparr>readyForNextGame := (readyForNextGame twoSummary)(''b'' \<mapsto> True)\<rparr>) p = Some True)
       (summaryRooms (twoSummary\<lparr>readyForNextGame := (readyForNextGame twoSummary)(''b'' \<mapsto> True)\<rparr>))"
    unfolding summaryRooms_twoSummary by code_simp
  from next_round_rearms_and_redeals[OF a b, of "\<lambda>i. 0"] a b show ?thesis by blast
qed

subsection \<open>The ledger\<close>

lemma transferPoints_amount:
  "n \<le> 0 \<Longrightarrow> transferPoints now sid a b n s
     = (s, [(ToSocket sid, Error ''Cannot transfer zero or negative points'')])"
  by (simp add: transferPoints_def)

lemma transferPoints_players:
  "0 < n \<Longrightarrow> falsy (Option.bind (rooms s a) player) \<or> falsy (Option.bind (rooms s b) player)
   \<Longrightarrow> transferPoints now sid a b n s
     = (s, [(ToSocket sid, Error ''Cannot transfer points - players not found'')])"
  by (simp add: transferPoints_def Let_def)

lemma transferPoints_phase:
  "0 < n \<Longrightarrow> \<not> falsy (Option.bind (rooms s a) player) \<Longrightarrow> \<not> falsy (Option.bind (rooms s b) player)
   \<Longrightarrow> map_option status (rooms s a) \<noteq> Some Summary \<or> map_option status (rooms s b) \<noteq> Some Summary
   \<Longrightarrow> transferPoints now sid a b n s
     = (s, [(ToSocket sid, Error ''Cannot transfer points - game not in summary state'')])"
  unfolding transferPoints_def Let_def by (simp only: if_True if_False simp_thms not_le[symmetric])

lemma transferPoints_owner:
  "0 < n \<Longrightarrow> \<not> falsy (Option.bind (rooms s a) player) \<Longrightarrow> \<not> falsy (Option.bind (rooms s b) player)
   \<Longrightarrow> map_option status (rooms s a) = Some Summary \<Longrightarrow> map_option status (rooms s b) = Some Summary
   \<Longrightarrow> Option.bind (rooms s a) player \<noteq> Some sid
   \<Longrightarrow> transferPoints now sid a b n s
     = (s, [(ToSocket sid, Error ''You can only transfer your own points'')])"
  unfolding transferPoints_def Let_def by (simp only: if_True if_False simp_thms not_le[symmetric])



lemma transferPoints_rejected:
  assumes "n \<le> 0 \<or> falsy (Option.bind (rooms s a) player) \<or> falsy (Option.bind (rooms s b) player)
     \<or> map_option status (rooms s a) \<noteq> Some Summary \<or> map_option status (rooms s b) \<noteq> Some Summary
     \<or> Option.bind (rooms s a) player \<noteq> Some sid"
  shows "\<exists>msg. transferPoints now sid a b n s = (s, [(ToSocket sid, Error msg)])
     \<and> msg \<in> {''Cannot transfer zero or negative points'',
               ''Cannot transfer points - players not found'',
               ''Cannot transfer points - game not in summary state'',
               ''You can only transfer your own points''}"
proof -
  have pos: "\<not> n \<le> 0 \<Longrightarrow> 0 < n" by simp
  consider (amount) "n \<le> 0"
    | (players) "0 < n" "falsy (Option.bind (rooms s a) player) \<or> falsy (Option.bind (rooms s b) player)"
    | (phase) "0 < n" "\<not> falsy (Option.bind (rooms s a) player)" "\<not> falsy (Option.bind (rooms s b) player)"
        "map_option status (rooms s a) \<noteq> Some Summary \<or> map_option status (rooms s b) \<noteq> Some Summary"
    | (owner) "0 < n" "\<not> falsy (Option.bind (rooms s a) player)" "\<not> falsy (Option.bind (rooms s b) player)"
        "map_option status (rooms s a) = Some Summary" "map_option status (rooms s b) = Some Summary"
        "Option.bind (rooms s a) player \<noteq> Some sid"
    using assms pos by blast
  then show ?thesis
  proof cases
    case amount
    show ?thesis
      by (rule exI[of _ "''Cannot transfer zero or negative points''"])
         (simp add: transferPoints_amount[OF amount])
  next
    case players
    show ?thesis
      by (rule exI[of _ "''Cannot transfer points - players not found''"])
         (simp add: transferPoints_players[OF players])
  next
    case phase
    show ?thesis
      by (rule exI[of _ "''Cannot transfer points - game not in summary state''"])
         (simp add: transferPoints_phase[OF phase])
  next
    case owner
    show ?thesis
      by (rule exI[of _ "''You can only transfer your own points''"])
         (simp add: transferPoints_owner[OF owner])
  qed
qed

text \<open>
  Claim C4. A \<open>transferPoints\<close> call that violates a precondition returns the state as
  it was (so both balances and the transaction log are unchanged) and sends exactly
  one \<open>error\<close> event, to the caller. The four checks run in the order amount, occupied
  seats, summary phase, ownership, each with its own message, and the four messages
  are pairwise different.
\<close>

theorem transferPoints_rejects:
  "(let fromPlayer = Option.bind (rooms s fromRoomId) player;
        toPlayer = Option.bind (rooms s toRoomId) player;
        fromStatus = map_option status (rooms s fromRoomId);
        toStatus = map_option status (rooms s toRoomId);
        result = transferPoints now sid fromRoomId toRoomId n s
    in (n \<le> 0 \<longrightarrow>
          result = (s, [(ToSocket sid, Error ''Cannot transfer zero or negative points'')]))
     \<and> (0 < n \<and> (falsy fromPlayer \<or> falsy toPlayer) \<longrightarrow>
          result = (s, [(ToSocket sid, Error ''Cannot transfer points - players not found'')]))
     \<and> (0 < n \<and> \<not> falsy fromPlayer \<and> \<not> falsy toPlayer
          \<and> (fromStatus \<noteq> Some Summary \<or> toStatus \<noteq> Some Summary) \<longrightarrow>
          result = (s, [(ToSocket sid, Error ''Cannot transfer points - game not in summary state'')]))
     \<and> (0 < n \<and> \<not> falsy fromPlayer \<and> \<not> falsy toPlayer
          \<and> fromStatus = Some Summary \<and> toStatus = Some Summary \<and> fromPlayer \<noteq> Some sid \<longrightarrow>
          result = (s, [(ToSocket sid, Error ''You can only transfer your own points'')]))
     \<and> (n \<le> 0 \<or> falsy fromPlayer \<or> falsy toPlayer
          \<or> fromStatus \<noteq> Some Summary \<or> toStatus \<noteq> Some Summary \<or> fromPlayer \<noteq> Some sid \<longrightarrow>
          (\<exists>msg. result = (s, [(ToSocket sid, Error msg)])
                \<and> msg \<in> {''Cannot transfer zero or negative points'',
                          ''Cannot transfer points - players not found'',
                          ''Cannot transfer points - game not in summary state'',
                          ''You can only transfer your own points''})))
   \<and> distinct [''Cannot transfer zero or negative points'',
                ''Cannot transfer points - players not found'',
                ''Cannot transfer points - game not in summary state'',
                ''You can only transfer your own points'']"
proof (rule conjI)
  show "distinct [''Cannot transfer zero or negative points'',
                ''Cannot transfer points - players not found'',
                ''Cannot transfer points - game not in summary state'',
                ''You can only transfer your own points'']"
    by simp
  show "let fromPlayer = Option.bind (rooms s fromRoomId) player;
        toPlayer = Option.bind (rooms s toRoomId) player;
        fromStatus = map_option status (rooms s fromRoomId);
        toStatus = map_option status (rooms s toRoomId);
        result = transferPoints now sid fromRoomId toRoomId n s
    in (n \<le> 0 \<longrightarrow>
          result = (s, [(ToSocket sid, Error ''Cannot transfer zero or negative points'')]))
     \<and> (0 < n \<and> (falsy fromPlayer \<or> falsy toPlayer) \<longrightarrow>
          result = (s, [(ToSocket sid, Error ''Cannot transfer points - players not found'')]))
     \<and> (0 < n \<and> \<not> falsy fromPlayer \<and> \<not> falsy toPlayer
          \<and> (fromStatus \<noteq> Some Summary \<or> toStatus \<noteq> Some Summary) \<longrightarrow>
          result = (s, [(ToSocket sid, Error ''Cannot transfer points - game not in summary state'')]))
     \<and> (0 < n \<and> \<not> falsy fromPlayer \<and> \<not> falsy toPlayer
          \<and> fromStatus = Some Summary \<and> toStatus = Some Summary \<and> fromPlayer \<noteq> Some sid \<longrightarrow>
          result = (s, [(ToSocket sid, Error ''You can only transfer your own points'')]))
     \<and> (n \<le> 0 \<or> falsy fromPlayer \<or> falsy toPlayer
          \<or> fromStatus \<noteq> Some Summary \<or> toStatus \<noteq> Some Summary \<or> fromPlayer \<noteq> Some sid \<longrightarrow>
          (\<exists>msg. result = (s, [(ToSocket sid, Error msg)])
                \<and> msg \<in> {''Cannot transfer zero or negative points'',
                          ''Cannot transfer points - players not found'',
                          ''Cannot transfer points - game not in summary state'',
                          ''You can only transfer your own points''}))"
    unfolding Let_def
  proof (intro conjI impI)
    assume "n \<le> 0"
    then show "transferPoints now sid fromRoomId toRoomId n s
        = (s, [(ToSocket sid, Error ''Cannot transfer zero or negative points'')])"
      by (rule transferPoints_amount)
  next
    assume "0 < n \<and> (falsy (Option.bind (rooms s fromRoomId) player)
        \<or> falsy (Option.bind (rooms s toRoomId) player))"
    then show "transferPoints now sid fromRoomId toRoomId n s
        = (s, [(ToSocket sid, Error ''Cannot transfer points - players not found'')])"
      by (intro transferPoints_players) simp_all
  next
    assume "0 < n \<and> \<not> falsy (Option.bind (rooms s fromRoomId) player)
        \<and> \<not> falsy (Option.bind (rooms s toRoomId) player)
        \<and> (map_option status (rooms s fromRoomId) \<noteq> Some Summary
            \<or> map_option status (rooms s toRoomId) \<noteq> Some Summary)"
    then show "transferPoints now sid fromRoomId toRoomId n s
        = (s, [(ToSocket sid, Error ''Cannot transfer points - game not in summary state'')])"
      by (intro transferPoints_phase) simp_all
  next
    assume "0 < n \<and> \<not> falsy (Option.bind (rooms s fromRoomId) player)
        \<and> \<not> falsy (Option.bind (rooms s toRoomId) player)
        \<and> map_option status (rooms s fromRoomId) = Some Summary
        \<and> map_option status (rooms s toRoomId) = Some Summary
        \<and> Option.bind (rooms s fromRoomId) player \<noteq> Some sid"
    then show "transferPoints now sid fromRoomId toRoomId n s
        = (s, [(ToSocket sid, Error ''You can only transfer your own points'')])"
      by (intro transferPoints_owner) simp_all
  next
    assume "n \<le> 0 \<or> falsy (Option.bind (rooms s fromRoomId) player)
        \<or> falsy (Option.bind (rooms s toRoomId) player)
        \<or> map_option status (rooms s fromRoomId) \<noteq> Some Summary
        \<or> map_option status (rooms s toRoomId) \<noteq> Some Summary
        \<or> Option.bind (rooms s fromRoomId) player \<noteq> Some sid"
    then show "\<exists>msg. transferPoints now sid fromRoomId toRoomId n s = (s, [(ToSocket sid, Error msg)])
        \<and> msg \<in> {''Cannot transfer zero or negative points'',
                  ''Cannot transfer points - players not found'',
                  ''Cannot transfer points - game not in summary state'',
                  ''You can only transfer your own points''}"
      by (rule transferPoints_rejected)
  qed
qed

text \<open>
  The theorem at two calls of socket \<open>a\<close>: a negative amount in the summary phase,
  and a positive amount while both seats are still playing.
\<close>

theorem transferPoints_rejects_witness:
  "transferPoints 7 ''a'' ''room-1'' ''room-2'' (- 5) twoSummary
     = (twoSummary, [(ToSocket ''a'', Error ''Cannot transfer zero or negative points'')])
   \<and> map_option status (rooms twoPlaying ''room-1'') \<noteq> Some Summary
   \<and> transferPoints 7 ''a'' ''room-1'' ''room-2'' 5 twoPlaying
       = (twoPlaying, [(ToSocket ''a'', Error ''Cannot transfer points - game not in summary state'')])"
proof -
  have f: "map_option status (rooms twoPlaying ''room-1'') \<noteq> Some Summary"
    and g: "\<not> falsy (Option.bind (rooms twoPlaying ''room-1'') player)"
    and h: "\<not> falsy (Option.bind (rooms twoPlaying ''room-2'') player)"
    by code_simp+
  have n: "(- 5 :: int) \<le> 0" and p: "(0 :: int) < 5" by simp_all
  note A = transferPoints_rejects[of twoSummary "''room-1''" "''room-2''" 7 "''a''" "- 5",
      unfolded Let_def, THEN conjunct1, THEN conjunct1, rule_format, OF n]
  note B = transferPoints_rejects[of twoPlaying "''room-1''" "''room-2''" 7 "''a''" 5,
      unfolded Let_def, THEN conjunct1, THEN conjunct2, THEN conjunct2, THEN conjunct1, rule_format]
  have c: "0 < (5::int) \<and> \<not> falsy (Option.bind (rooms twoPlaying ''room-1'') player)
      \<and> \<not> falsy (Option.bind (rooms twoPlaying ''room-2'') player)
      \<and> (map_option status (rooms twoPlaying ''room-1'') \<noteq> Some Summary
         \<or> map_option status (rooms twoPlaying ''room-2'') \<noteq> Some Summary)"
    using p f g h by (intro conjI disjI1)
  show ?thesis
    by (intro conjI) (rule A, rule f, rule B[OF c])
qed







subsection \<open>Disconnecting, confirming and failed preconditions\<close>

lemma map_of_remove: "map_of (remove k es) k' = (if k' = k then None else map_of es k')"
  by (induction es) (auto simp: remove_def)

lemma map_of_assign: "map_of (assign k v es) k' = (if k' = k then Some v else map_of es k')"
  by (induction es) auto

text \<open>
  Claim C9. On \<open>disconnect\<close>, every seat held by the socket is reset (occupant null,
  ready flag false, status \<open>empty\<close>) and every other seat is as before; the socket's
  played cards and its ready-for-next flag are deleted, those of the other sockets
  are kept; the balances and the transaction log are unchanged.
\<close>

theorem disconnect_keeps_ledger:
  "(\<forall>k \<in> set roomIds. \<forall>r. rooms s k = Some r \<longrightarrow>
       rooms (fst (disconnect sid s)) k
       = Some (if player r = Some sid
               then r\<lparr>player := None, isReady := False, status := Empty\<rparr> else r))
   \<and> map_of (playedCards (fst (disconnect sid s))) sid = None
   \<and> readyForNextGame (fst (disconnect sid s)) sid = None
   \<and> (\<forall>p. p \<noteq> sid \<longrightarrow>
         map_of (playedCards (fst (disconnect sid s))) p = map_of (playedCards s) p
         \<and> readyForNextGame (fst (disconnect sid s)) p = readyForNextGame s p)
   \<and> playerPoints (fst (disconnect sid s)) = playerPoints s
   \<and> transactions (fst (disconnect sid s)) = transactions s"
  by (simp add: disconnect_rooms disconnect_fields map_of_remove)

text \<open>The theorem at the scenario state in which \<open>a\<close> plays in room 1 and has confirmed.\<close>

theorem disconnect_keeps_ledger_witness:
  "''room-1'' \<in> set roomIds
   \<and> rooms twoPlaying ''room-1''
       = Some \<lparr>player = Some ''a'', isReady = False, capacity = 1, status = Playing\<rparr>
   \<and> rooms (fst (disconnect ''a'' twoPlaying)) ''room-1''
       = Some \<lparr>player = None, isReady = False, capacity = 1, status = Empty\<rparr>
   \<and> playerPoints (fst (disconnect ''a'' twoPlaying)) = playerPoints twoPlaying"
proof -
  have k: "''room-1'' \<in> set roomIds" by (simp add: roomIds_def)
  have r: "rooms twoPlaying ''room-1''
       = Some \<lparr>player = Some ''a'', isReady = False, capacity = 1, status = Playing\<rparr>"
    by code_simp
  note T = disconnect_keeps_ledger[of twoPlaying "''a''"]
  have "rooms (fst (disconnect ''a'' twoPlaying)) ''room-1''
       = Some (if player \<lparr>player = Some ''a'', isReady = False, capacity = 1, status = Playing\<rparr> = Some ''a''
               then \<lparr>player = Some ''a'', isReady = False, capacity = 1, status = Playing\<rparr>
                      \<lparr>player := None, isReady := False, status := Empty\<rparr>
               else \<lparr>player = Some ''a'', isReady = False, capacity = 1, status = Playing\<rparr>)"
    by (rule T[THEN conjunct1, THEN bspec, OF k, THEN spec, THEN mp, OF r])
  then have a: "rooms (fst (disconnect ''a'' twoPlaying)) ''room-1''
       = Some \<lparr>player = None, isReady = False, capacity = 1, status = Empty\<rparr>"
    by simp
  have b: "playerPoints (fst (disconnect ''a'' twoPlaying)) = playerPoints twoPlaying"
    by (rule T[THEN conjunct2, THEN conjunct2, THEN conjunct2, THEN conjunct2, THEN conjunct1])
  show ?thesis by (intro conjI) (rule k, rule r, rule a, rule b)
qed

lemma checkAllPlayersConfirmed_playedCards:
  "playedCards (fst (checkAllPlayersConfirmed s)) = playedCards s"
proof (cases "list_all (\<lambda>(_, p). map_option confirmed (map_of (playedCards s) p) = Some True) (playingRooms s)
      \<and> length (playingRooms s) \<ge> 2")
  case True
  then show ?thesis by (simp add: checkAllPlayersConfirmed_fires(3))
next
  case False
  then show ?thesis by (simp add: checkAllPlayersConfirmed_idle)
qed

lemma checkAllPlayersConfirmed_no_error:
  "(aud, Error msg) \<notin> set (snd (checkAllPlayersConfirmed s))"
proof (cases "list_all (\<lambda>(_, p). map_option confirmed (map_of (playedCards s) p) = Some True) (playingRooms s)
      \<and> length (playingRooms s) \<ge> 2")
  case True
  then obtain summ where "snd (checkAllPlayersConfirmed s) =
      [(ToAll, CardsSummary summ), (ToAll, RoomsUpdate (rooms (fst (checkAllPlayersConfirmed s))))]"
    using checkAllPlayersConfirmed_fires(7)[of s] by blast
  then show ?thesis by simp
next
  case False
  then show ?thesis by (simp add: checkAllPlayersConfirmed_idle)
qed

lemma confirmCards_accepted:
  assumes "rooms s rid = Some room" and "player room = Some sid" and "status room = Playing"
  shows "confirmCards sid rid cs used s =
     checkAllPlayersConfirmed
       (s\<lparr>playedCards := assign sid \<lparr>playerId = sid, roomId = rid, cards = cs,
                                      communityCardUsed = used, confirmed = True\<rparr> (playedCards s)\<rparr>)"
  using assms by (simp add: confirmCards_def Let_def)

text \<open>
  Claim C2, as amended. A \<open>confirmCards\<close> event from the occupant of a seat with status
  \<open>playing\<close> is accepted whatever the three groups hold (their sizes are not looked
  at): the sender's record is stored with the submitted groups and
  \<open>confirmed = true\<close>, and no \<open>error\<close> event is emitted.
\<close>

theorem confirmCards_stores_any_shape:
  assumes "rooms s rid = Some room" and "player room = Some sid" and "status room = Playing"
  shows "map_of (playedCards (fst (confirmCards sid rid cs used s))) sid
           = Some \<lparr>playerId = sid, roomId = rid, cards = cs,
                   communityCardUsed = used, confirmed = True\<rparr>
       \<and> (\<forall>aud msg. (aud, Error msg) \<notin> set (snd (confirmCards sid rid cs used s)))"
  unfolding confirmCards_accepted[OF assms]
  by (simp add: checkAllPlayersConfirmed_playedCards checkAllPlayersConfirmed_no_error map_of_assign)

text \<open>
  The theorem at the scenario state: \<open>b\<close>, playing in room 2, confirms three empty
  groups.
\<close>

theorem confirmCards_stores_any_shape_witness:
  "rooms twoPlaying ''room-2''
     = Some \<lparr>player = Some ''b'', isReady = False, capacity = 1, status = Playing\<rparr>
   \<and> map_of (playedCards (fst (confirmCards ''b'' ''room-2'' \<lparr>row0 = [], row1 = [], row2 = []\<rparr> None
                                  twoPlaying))) ''b''
       = Some \<lparr>playerId = ''b'', roomId = ''room-2'', cards = \<lparr>row0 = [], row1 = [], row2 = []\<rparr>,
               communityCardUsed = None, confirmed = True\<rparr>"
proof -
  have r: "rooms twoPlaying ''room-2''
     = Some \<lparr>player = Some ''b'', isReady = False, capacity = 1, status = Playing\<rparr>"
    by code_simp
  have "map_of (playedCards (fst (confirmCards ''b'' ''room-2'' \<lparr>row0 = [], row1 = [], row2 = []\<rparr> None
                                  twoPlaying))) ''b''
       = Some \<lparr>playerId = ''b'', roomId = ''room-2'', cards = \<lparr>row0 = [], row1 = [], row2 = []\<rparr>,
               communityCardUsed = None, confirmed = True\<rparr>
       \<and> (\<forall>aud msg. (aud, Error msg)
             \<notin> set (snd (confirmCards ''b'' ''room-2'' \<lparr>row0 = [], row1 = [], row2 = []\<rparr> None twoPlaying)))"
    by (rule confirmCards_stores_any_shape[OF r]) simp_all
  note stored = this[THEN conjunct1]
  show ?thesis by (intro conjI) (rule r, rule stored)
qed

text \<open>
  Claim C2 as stated fails: in a reachable state a connected socket, playing in
  room 2, confirms groups of 1, 0 and 0 cards, and its record is stored.
\<close>

theorem confirmCards_shape_counterexample:
  "reachable twoPlaying \<and> ''b'' \<in> sockets twoPlaying
   \<and> length [Card hearts ''2''] + length ([] :: Card list) + length ([] :: Card list) \<noteq> 13
   \<and> map_option confirmed
        (map_of (playedCards (fst (handle (\<lambda>i. 0) 0 ''b''
            (ConfirmCards ''room-2'' \<lparr>row0 = [Card hearts ''2''], row1 = [], row2 = []\<rparr> None)
            twoPlaying))) ''b'')
       = Some True"
proof -
  have a: "''b'' \<in> sockets twoPlaying" by code_simp
  have b: "length [Card hearts ''2''] + length ([] :: Card list) + length ([] :: Card list) \<noteq> 13"
    by simp
  have c: "map_option confirmed
        (map_of (playedCards (fst (handle (\<lambda>i. 0) 0 ''b''
            (ConfirmCards ''room-2'' \<lparr>row0 = [Card hearts ''2''], row1 = [], row2 = []\<rparr> None)
            twoPlaying))) ''b'')
       = Some True"
    by code_simp
  show ?thesis by (intro conjI) (rule reachable_twoPlaying, rule a, rule b, rule c)
qed

lemma toggleReady_ignored:
  "rooms s rid = None \<or> (\<exists>room. rooms s rid = Some room \<and> player room \<noteq> Some sid)
   \<Longrightarrow> toggleReady rnd sid rid s = (s, [])"
  by (auto simp: toggleReady_def)

lemma confirmCards_ignored:
  "rooms s rid = None
   \<or> (\<exists>room. rooms s rid = Some room \<and> (player room \<noteq> Some sid \<or> status room \<noteq> Playing))
   \<Longrightarrow> confirmCards sid rid cs used s = (s, [])"
  by (auto simp: confirmCards_def)

lemma readyForNext_ignored:
  "rooms s rid = None
   \<or> (\<exists>room. rooms s rid = Some room \<and> (player room \<noteq> Some sid \<or> status room \<noteq> Summary))
   \<Longrightarrow> readyForNext rnd sid rid s = (s, [])"
  by (auto simp: readyForNext_def)

lemma joinRoom_unknown:
  "rooms s rid = None \<Longrightarrow> joinRoom sid rid s = (s, [(ToSocket sid, Error ''Room is not available'')])"
  by (simp add: joinRoom_def)

lemma joinRoom_taken:
  "rooms s rid = Some room \<Longrightarrow> status room = Playing \<or> player room \<noteq> None
   \<Longrightarrow> joinRoom sid rid s = (s, [(ToSocket sid, Error ''Room is not available'')])"
  by (simp add: joinRoom_def)

text \<open>
  Claim C3, as amended. A \<open>toggleReady\<close> for an unknown room or from a socket that does
  not hold the room, a \<open>confirmCards\<close> for an unknown room, from a non-holder or
  outside status \<open>playing\<close>, and a \<open>readyForNextGame\<close> for an unknown room, from a
  non-holder or outside status \<open>summary\<close> are ignored: the state is unchanged and
  nothing is emitted. A \<open>joinRoom\<close> for an unknown, occupied or playing room changes
  no state and broadcasts nothing, and emits one \<open>error\<close> event, to the caller.
\<close>

theorem failed_preconditions:
  "(rooms s rid = None \<or> (\<exists>room. rooms s rid = Some room \<and> player room \<noteq> Some sid)
      \<longrightarrow> toggleReady rnd sid rid s = (s, []))
   \<and> (rooms s rid = None
       \<or> (\<exists>room. rooms s rid = Some room \<and> (player room \<noteq> Some sid \<or> status room \<noteq> Playing))
      \<longrightarrow> confirmCards sid rid cs used s = (s, []))
   \<and> (rooms s rid = None
       \<or> (\<exists>room. rooms s rid = Some room \<and> (player room \<noteq> Some sid \<or> status room \<noteq> Summary))
      \<longrightarrow> readyForNext rnd sid rid s = (s, []))
   \<and> (rooms s rid = None
       \<or> (\<exists>room. rooms s rid = Some room \<and> (status room = Playing \<or> player room \<noteq> None))
      \<longrightarrow> joinRoom sid rid s = (s, [(ToSocket sid, Error ''Room is not available'')]))"
proof (intro conjI impI)
  assume "rooms s rid = None \<or> (\<exists>room. rooms s rid = Some room \<and> player room \<noteq> Some sid)"
  then show "toggleReady rnd sid rid s = (s, [])" by (rule toggleReady_ignored)
next
  assume "rooms s rid = None
       \<or> (\<exists>room. rooms s rid = Some room \<and> (player room \<noteq> Some sid \<or> status room \<noteq> Playing))"
  then show "confirmCards sid rid cs used s = (s, [])" by (rule confirmCards_ignored)
next
  assume "rooms s rid = None
       \<or> (\<exists>room. rooms s rid = Some room \<and> (player room \<noteq> Some sid \<or> status room \<noteq> Summary))"
  then show "readyForNext rnd sid rid s = (s, [])" by (rule readyForNext_ignored)
next
  assume "rooms s rid = None
       \<or> (\<exists>room. rooms s rid = Some room \<and> (status room = Playing \<or> player room \<noteq> None))"
  then show "joinRoom sid rid s = (s, [(ToSocket sid, Error ''Room is not available'')])"
  proof (elim disjE exE conjE)
    assume "rooms s rid = None"
    then show ?thesis by (rule joinRoom_unknown)
  next
    fix room
    assume "rooms s rid = Some room" "status room = Playing"
    then show ?thesis by (intro joinRoom_taken disjI1)
  next
    fix room
    assume "rooms s rid = Some room" "player room \<noteq> None"
    then show ?thesis by (intro joinRoom_taken disjI2)
  qed
qed

text \<open>
  The theorem at the scenario state, for socket \<open>b\<close> and room 1, which \<open>a\<close> holds:
  its \<open>toggleReady\<close> is ignored, its \<open>joinRoom\<close> is answered with the error.
\<close>

theorem failed_preconditions_witness:
  "(\<exists>room. rooms twoPlaying ''room-1'' = Some room \<and> player room \<noteq> Some ''b'')
   \<and> toggleReady (\<lambda>i. 0) ''b'' ''room-1'' twoPlaying = (twoPlaying, [])
   \<and> (\<exists>room. rooms twoPlaying ''room-1'' = Some room \<and> (status room = Playing \<or> player room \<noteq> None))
   \<and> joinRoom ''b'' ''room-1'' twoPlaying
       = (twoPlaying, [(ToSocket ''b'', Error ''Room is not available'')])"
proof -
  have r: "rooms twoPlaying ''room-1''
       = Some \<lparr>player = Some ''a'', isReady = False, capacity = 1, status = Playing\<rparr>"
    by code_simp
  have h1: "\<exists>room. rooms twoPlaying ''room-1'' = Some room \<and> player room \<noteq> Some ''b''"
    by (rule exI, rule conjI, rule r) simp
  have h2: "\<exists>room. rooms twoPlaying ''room-1'' = Some room \<and> (status room = Playing \<or> player room \<noteq> None)"
    by (rule exI, rule conjI, rule r) simp
  note T = failed_preconditions[of twoPlaying "''room-1''" "''b''" "\<lambda>i. 0"]
  have t: "toggleReady (\<lambda>i. 0) ''b'' ''room-1'' twoPlaying = (twoPlaying, [])"
    by (rule T[THEN conjunct1, THEN mp]) (rule disjI2, rule h1)
  have j: "joinRoom ''b'' ''room-1'' twoPlaying
       = (twoPlaying, [(ToSocket ''b'', Error ''Room is not available'')])"
    by (rule T[THEN conjunct2, THEN conjunct2, THEN conjunct2, THEN mp]) (rule disjI2, rule h2)
  show ?thesis by (intro conjI) (rule h1, rule t, rule h2, rule j)
qed

text \<open>
  Claim C3 as stated fails for \<open>joinRoom\<close>: in a reachable state the connected socket
  \<open>b\<close> asks for room 1, which \<open>a\<close> holds, and is sent an \<open>error\<close> event.
\<close>

theorem joinRoom_error_counterexample:
  "reachable twoPlaying \<and> ''b'' \<in> sockets twoPlaying
   \<and> Option.bind (rooms twoPlaying ''room-1'') player = Some ''a''
   \<and> snd (handle (\<lambda>i. 0) 0 ''b'' (JoinRoom ''room-1'') twoPlaying)
       = [(ToSocket ''b'', Error ''Room is not available'')]"
proof -
  have a: "''b'' \<in> sockets twoPlaying" by code_simp
  have b: "Option.bind (rooms twoPlaying ''room-1'') player = Some ''a''" by code_simp
  have r: "rooms twoPlaying ''room-1''
       = Some \<lparr>player = Some ''a'', isReady = False, capacity = 1, status = Playing\<rparr>"
    by code_simp
  have c: "snd (handle (\<lambda>i. 0) 0 ''b'' (JoinRoom ''room-1'') twoPlaying)
       = [(ToSocket ''b'', Error ''Room is not available'')]"
    by (simp add: joinRoom_taken[OF r])
  show ?thesis by (intro conjI) (rule reachable_twoPlaying, rule a, rule b, rule c)
qed

end
